theory Spec2Isabelle
  imports Complex_Main
begin

section \<open>Python and numpy values\<close>

text \<open>
  The aggregator \<^verbatim>\<open>remote.py\<close> combines per-site summary statistics with numpy.
  Numbers are modelled as exact reals extended by the three special values of IEEE
  arithmetic: rounding, overflow, signed zeros and the int/float distinction of numpy
  dtypes are abstracted away, while division by zero and the square root of a negative
  number give \<open>inf\<close>/\<open>nan\<close> as numpy does (with a warning, not an exception).
\<close>

datatype npfloat = Fin real | PInf | MInf | NaN

fun fneg :: "npfloat \<Rightarrow> npfloat" where
  "fneg (Fin a) = Fin (- a)"
| "fneg PInf = MInf"
| "fneg MInf = PInf"
| "fneg NaN = NaN"

fun fadd :: "npfloat \<Rightarrow> npfloat \<Rightarrow> npfloat" where
  "fadd (Fin a) (Fin b) = Fin (a + b)"
| "fadd NaN _ = NaN"
| "fadd _ NaN = NaN"
| "fadd PInf MInf = NaN"
| "fadd MInf PInf = NaN"
| "fadd PInf _ = PInf"
| "fadd _ PInf = PInf"
| "fadd MInf _ = MInf"
| "fadd _ MInf = MInf"

definition fsub :: "npfloat \<Rightarrow> npfloat \<Rightarrow> npfloat" where
  "fsub a b = fadd a (fneg b)"

fun fsign :: "npfloat \<Rightarrow> int" where
  "fsign (Fin a) = (if a < 0 then -1 else if a = 0 then 0 else 1)"
| "fsign PInf = 1"
| "fsign MInf = -1"
| "fsign NaN = 0"

definition inf_of_sign :: "int \<Rightarrow> npfloat" where
  "inf_of_sign s = (if s = 0 then NaN else if s < 0 then MInf else PInf)"

fun fmul :: "npfloat \<Rightarrow> npfloat \<Rightarrow> npfloat" where
  "fmul (Fin a) (Fin b) = Fin (a * b)"
| "fmul NaN _ = NaN"
| "fmul _ NaN = NaN"
| "fmul a b = inf_of_sign (fsign a * fsign b)"

fun fdiv :: "npfloat \<Rightarrow> npfloat \<Rightarrow> npfloat" where
  "fdiv (Fin a) (Fin b) = (if b = 0 then inf_of_sign (fsign (Fin a)) else Fin (a / b))"
| "fdiv NaN _ = NaN"
| "fdiv _ NaN = NaN"
| "fdiv (Fin a) _ = Fin 0"
| "fdiv a (Fin b) = (if b < 0 then fneg a else a)"
| "fdiv _ _ = NaN"

fun fsqrt :: "npfloat \<Rightarrow> npfloat" where
  "fsqrt (Fin a) = (if a < 0 then NaN else Fin (sqrt a))"
| "fsqrt PInf = PInf"
| "fsqrt MInf = NaN"
| "fsqrt NaN = NaN"

definition fsum :: "npfloat list \<Rightarrow> npfloat" where
  "fsum xs = foldl fadd (Fin 0) xs"

text \<open>
  A numeric field of a payload is a number or a (nested) list of numbers, the value
  \<^verbatim>\<open>json.loads\<close> hands to the code and the value \<^verbatim>\<open>ndarray.tolist()\<close> returns.
\<close>

datatype pyval = Num npfloat | List "pyval list"

datatype error =
  IndexError | KeyError string | TypeError | ValueError string | AxisError
  | ZeroDivisionError | LinAlgError | OtherError string

type_synonym 'a result = "error + 'a"

definition bind :: "'a result \<Rightarrow> ('a \<Rightarrow> 'b result) \<Rightarrow> 'b result" where
  "bind m f = (case m of Inl e \<Rightarrow> Inl e | Inr v \<Rightarrow> f v)"

text \<open>A list comprehension whose body may raise: the first exception, in order, wins.\<close>

fun comprehension :: "('a \<Rightarrow> 'b result) \<Rightarrow> 'a list \<Rightarrow> 'b list result" where
  "comprehension f [] = Inr []"
| "comprehension f (x # xs) =
     (case f x of Inl e \<Rightarrow> Inl e
      | Inr y \<Rightarrow> (case comprehension f xs of Inl e \<Rightarrow> Inl e | Inr ys \<Rightarrow> Inr (y # ys)))"

text \<open>\<^verbatim>\<open>d[key]\<close> on a dictionary that may lack the key.\<close>

definition getitem :: "string \<Rightarrow> 'a option \<Rightarrow> 'a result" where
  "getitem key v = (case v of None \<Rightarrow> Inl (KeyError key) | Some x \<Rightarrow> Inr x)"

text \<open>\<^verbatim>\<open>v[i]\<close> on a Python list or number.\<close>

fun py_index :: "pyval \<Rightarrow> nat \<Rightarrow> pyval result" where
  "py_index (Num _) i = Inl TypeError"
| "py_index (List xs) i = (if i < length xs then Inr (xs ! i) else Inl IndexError)"

subsection \<open>Arrays\<close>

text \<open>
  An \<^verbatim>\<open>ndarray\<close> is its shape and its elements in row-major order; a numpy scalar is
  the array of shape \<open>[]\<close>.
\<close>

datatype ndarray = NDArray (shape: "nat list") (elems: "npfloat list")

definition wf_array :: "ndarray \<Rightarrow> bool" where
  "wf_array a = (length (elems a) = prod_list (shape a))"

definition scalar :: "npfloat \<Rightarrow> ndarray" where
  "scalar x = NDArray [] [x]"

fun all_indices :: "nat list \<Rightarrow> nat list list" where
  "all_indices [] = [[]]"
| "all_indices (n # ns) = concat (map (\<lambda>i. map ((#) i) (all_indices ns)) [0..<n])"

fun flat_index :: "nat list \<Rightarrow> nat list \<Rightarrow> nat" where
  "flat_index (n # ns) (i # is) = i * prod_list ns + flat_index ns is"
| "flat_index _ _ = 0"

definition item :: "ndarray \<Rightarrow> nat list \<Rightarrow> npfloat" where
  "item a idx = elems a ! flat_index (shape a) idx"

text \<open>
  \<^verbatim>\<open>np.array\<close> of a list of arrays (and of a nested list) stacks them along a new
  leading axis; arrays of different shapes are rejected with \<^verbatim>\<open>ValueError\<close>
  (inhomogeneous shape), as numpy 1.24 and later do.
\<close>

definition nd_stack :: "ndarray list \<Rightarrow> ndarray result" where
  "nd_stack as =
     (case as of
        [] \<Rightarrow> Inr (NDArray [0] [])
      | a # _ \<Rightarrow>
          if list_all (\<lambda>b. shape b = shape a) as
          then Inr (NDArray (length as # shape a) (concat (map elems as)))
          else Inl (ValueError ''inhomogeneous shape''))"

fun np_array :: "pyval \<Rightarrow> ndarray result"
  and np_arrays :: "pyval list \<Rightarrow> ndarray list result" where
  "np_array (Num x) = Inr (scalar x)"
| "np_array (List vs) =
     (case np_arrays vs of Inl e \<Rightarrow> Inl e | Inr as \<Rightarrow> nd_stack as)"
| "np_arrays [] = Inr []"
| "np_arrays (v # vs) =
     (case np_array v of Inl e \<Rightarrow> Inl e
      | Inr a \<Rightarrow> (case np_arrays vs of Inl e \<Rightarrow> Inl e | Inr as \<Rightarrow> Inr (a # as)))"

text \<open>\<^verbatim>\<open>a.tolist()\<close>: the nested Python list of an array, a plain number for a scalar.\<close>

fun tolist_aux :: "nat list \<Rightarrow> npfloat list \<Rightarrow> pyval" where
  "tolist_aux [] d = (case d of x # _ \<Rightarrow> Num x | [] \<Rightarrow> List [])"
| "tolist_aux (n # ns) d =
     List (map (\<lambda>i. tolist_aux ns (take (prod_list ns) (drop (i * prod_list ns) d))) [0..<n])"

definition tolist :: "ndarray \<Rightarrow> pyval" where
  "tolist a = tolist_aux (shape a) (elems a)"

text \<open>
  Broadcasting: shapes are aligned at their last axis; two axes are compatible when they
  are equal or one of them is 1. An incompatible pair raises \<^verbatim>\<open>ValueError\<close>.
\<close>

fun broadcast_rev :: "nat list \<Rightarrow> nat list \<Rightarrow> nat list option" where
  "broadcast_rev [] ys = Some ys"
| "broadcast_rev xs [] = Some xs"
| "broadcast_rev (x # xs) (y # ys) =
     (if x = y \<or> y = 1 then map_option ((#) x) (broadcast_rev xs ys)
      else if x = 1 then map_option ((#) y) (broadcast_rev xs ys)
      else None)"

definition broadcast_shapes :: "nat list \<Rightarrow> nat list \<Rightarrow> nat list option" where
  "broadcast_shapes s t = map_option rev (broadcast_rev (rev s) (rev t))"

definition bc_index :: "nat list \<Rightarrow> nat list \<Rightarrow> nat list" where
  "bc_index s idx =
     map2 (\<lambda>n i. if n = 1 then 0 else i) s (drop (length idx - length s) idx)"

definition nd_binop :: "(npfloat \<Rightarrow> npfloat \<Rightarrow> npfloat) \<Rightarrow> ndarray \<Rightarrow> ndarray \<Rightarrow> ndarray result" where
  "nd_binop f a b =
     (case broadcast_shapes (shape a) (shape b) of
        None \<Rightarrow> Inl (ValueError ''operands could not be broadcast together'')
      | Some r \<Rightarrow>
          Inr (NDArray r
                 (map (\<lambda>idx. f (item a (bc_index (shape a) idx)) (item b (bc_index (shape b) idx)))
                      (all_indices r))))"

definition nd_add :: "ndarray \<Rightarrow> ndarray \<Rightarrow> ndarray result" where
  "nd_add = nd_binop fadd"

definition nd_sub :: "ndarray \<Rightarrow> ndarray \<Rightarrow> ndarray result" where
  "nd_sub = nd_binop fsub"

definition nd_mul :: "ndarray \<Rightarrow> ndarray \<Rightarrow> ndarray result" where
  "nd_mul = nd_binop fmul"

definition nd_div :: "ndarray \<Rightarrow> ndarray \<Rightarrow> ndarray result" where
  "nd_div = nd_binop fdiv"

definition nd_sqrt :: "ndarray \<Rightarrow> ndarray" where
  "nd_sqrt a = NDArray (shape a) (map fsqrt (elems a))"

text \<open>\<^verbatim>\<open>np.sum(a, axis=0)\<close>; a scalar has no axis 0.\<close>

definition np_sum_axis0 :: "ndarray \<Rightarrow> ndarray result" where
  "np_sum_axis0 a =
     (case shape a of
        [] \<Rightarrow> Inl AxisError
      | n # ns \<Rightarrow>
          Inr (NDArray ns
                 (map (\<lambda>k. fsum (map (\<lambda>i. elems a ! (i * prod_list ns + k)) [0..<n]))
                      [0..<prod_list ns])))"

text \<open>
  \<^verbatim>\<open>np.average(as, axis=0)\<close> of a list of arrays: the list is stacked and the mean
  is taken along the new axis (the sum divided by the number of arrays). numpy then
  computes the scale \<^verbatim>\<open>a.size / avg.size\<close> on Python integers, which raises
  \<^verbatim>\<open>ZeroDivisionError\<close> when the mean has no element.
\<close>

definition np_average_axis0 :: "ndarray list \<Rightarrow> ndarray result" where
  "np_average_axis0 as =
     bind (nd_stack as) (\<lambda>a.
     bind (np_sum_axis0 a) (\<lambda>s.
     if prod_list (shape s) = 0 then Inl ZeroDivisionError
     else Inr (NDArray (shape s) (map (\<lambda>x. fdiv x (Fin (real (length as)))) (elems s)))))"

text \<open>
  Python's builtin \<^verbatim>\<open>sum\<close> over a list of arrays: \<^verbatim>\<open>0 + a0 + a1 + ...\<close>, each
  addition broadcasting. Of the empty list it is the Python integer 0, written \<open>None\<close>.
\<close>

definition py_sum :: "ndarray list \<Rightarrow> ndarray option result" where
  "py_sum as =
     (case as of
        [] \<Rightarrow> Inr None
      | _ \<Rightarrow> map_sum id Some
               (foldl (\<lambda>acc a. bind acc (\<lambda>s. nd_add s a)) (Inr (scalar (Fin 0))) as))"

text \<open>\<^verbatim>\<open>a.shape[k]\<close>.\<close>

definition shape_at :: "ndarray \<Rightarrow> nat \<Rightarrow> nat result" where
  "shape_at a k = (if k < length (shape a) then Inr (shape a ! k) else Inl IndexError)"

section \<open>Payloads\<close>

text \<open>
  A site's record is a dictionary; a key the site did not send is \<open>None\<close> and reading it
  raises \<^verbatim>\<open>KeyError\<close>. Label lists (\<open>'l\<close>) and the per-site statistics blob (\<open>'b\<close>) are
  carried and never inspected. The payload maps site identifiers to records, in the
  dictionary's iteration order.
\<close>

record ('l, 'b) site =
  beta_vector_local :: "pyval option"
  mean_y_local :: "pyval option"
  count_local :: "pyval option"
  X_labels :: "'l option"
  y_labels :: "'l option"
  local_stats_dict :: "'b option"
  SSE_local :: "pyval option"
  SST_local :: "pyval option"
  varX_matrix_local :: "pyval option"
  computation_phase :: "string option"

record ('l, 'b) cache =
  cache_avg_beta_vector :: "pyval option"
  cache_mean_y_global :: "pyval option"
  cache_dof_global :: "pyval option"
  cache_X_labels :: "'l option"
  cache_y_labels :: "'l option"
  cache_local_stats_dict :: "'b list option"

record ('l, 'b) args =
  input :: "(string \<times> ('l, 'b) site) list"
  cache :: "('l, 'b) cache"

record output_1 =
  out_avg_beta_vector :: pyval
  out_mean_y_global :: pyval
  out_computation_phase :: string

record ('l, 'b) computation_output_1 =
  output_dict :: output_1
  cache_dict :: "('l, 'b) cache"

section \<open>Phase 1: \<^verbatim>\<open>remote_1\<close>\<close>

text \<open>\<^verbatim>\<open>list(d)[0]\<close> and the record stored under that key.\<close>

definition first_item :: "(string \<times> 'a) list \<Rightarrow> (string \<times> 'a) result" where
  "first_item d = (case d of [] \<Rightarrow> Inl IndexError | kv # _ \<Rightarrow> Inr kv)"

text \<open>\<^verbatim>\<open>total - k\<close> where \<open>summed\<close> is the result of the builtin \<^verbatim>\<open>sum\<close>.\<close>

definition minus_int :: "ndarray option \<Rightarrow> nat \<Rightarrow> ndarray result" where
  "minus_int summed k =
     (case summed of
        None \<Rightarrow> Inr (scalar (Fin (0 - real k)))
      | Some t \<Rightarrow> nd_sub t (scalar (Fin (real k))))"

definition remote_1 :: "('l, 'b) args \<Rightarrow> ('l, 'b) computation_output_1 result" where
  "remote_1 args =
     (let input_list = input args in
     bind (first_item input_list) (\<lambda>(userId, first).
     bind (getitem ''X_labels'' (X_labels first)) (\<lambda>X_labels'.
     bind (getitem ''y_labels'' (y_labels first)) (\<lambda>y_labels'.
     bind (comprehension (\<lambda>(site, r). getitem ''local_stats_dict'' (local_stats_dict r)) input_list)
       (\<lambda>all_local_stats_dicts.
     bind (comprehension
             (\<lambda>(site, r). bind (getitem ''beta_vector_local'' (beta_vector_local r)) np_array)
             input_list) (\<lambda>betas.
     bind (np_average_axis0 betas) (\<lambda>avg_beta_vector.
     bind (comprehension (\<lambda>(site, r). getitem ''mean_y_local'' (mean_y_local r)) input_list)
       (\<lambda>mean_y_local'.
     bind (comprehension
             (\<lambda>(site, r). bind (getitem ''count_local'' (count_local r)) np_array)
             input_list) (\<lambda>count_y_local.
     bind (np_array (List mean_y_local')) (\<lambda>means.
     bind (nd_stack count_y_local) (\<lambda>counts.
     bind (nd_mul means counts) (\<lambda>weighted.
     bind (np_sum_axis0 weighted) (\<lambda>numer.
     bind (bind (nd_stack count_y_local) np_sum_axis0) (\<lambda>denom.
     bind (nd_div numer denom) (\<lambda>mean_y_global.
     bind (py_sum count_y_local) (\<lambda>summed.
     bind (shape_at avg_beta_vector 1) (\<lambda>p.
     bind (minus_int summed p) (\<lambda>dof_global.
     Inr \<lparr> output_dict = \<lparr> out_avg_beta_vector = tolist avg_beta_vector,
                           out_mean_y_global = tolist mean_y_global,
                           out_computation_phase = ''remote_1'' \<rparr>,
           cache_dict = \<lparr> cache_avg_beta_vector = Some (tolist avg_beta_vector),
                          cache_mean_y_global = Some (tolist mean_y_global),
                          cache_dof_global = Some (tolist dof_global),
                          cache_X_labels = Some X_labels',
                          cache_y_labels = Some y_labels',
                          cache_local_stats_dict = Some all_local_stats_dicts \<rparr> \<rparr>
     ))))))))))))))))))"

section \<open>Phase 2: \<^verbatim>\<open>remote_2\<close>\<close>

text \<open>
  The collaborators of \<^verbatim>\<open>remote_2\<close> live outside \<^verbatim>\<open>remote.py\<close> and are parameters
  of the model: \<^verbatim>\<open>scipy.linalg.inv\<close>, \<^verbatim>\<open>regression.t_to_p\<close> and the rendering
  routines of \<^verbatim>\<open>ancillary\<close>. The rendering routines write files; the files are the
  state \<open>'w\<close> that they transform and that \<^verbatim>\<open>encode_png\<close> reads. Each may raise.
\<close>

record ('l, 'b, 'g, 'w) collaborators =
  linalg_inv :: "ndarray \<Rightarrow> ndarray result"
  t_to_p :: "pyval \<Rightarrow> pyval \<Rightarrow> pyval result"
  print_pvals :: "('l, 'b) args \<Rightarrow> pyval list \<Rightarrow> pyval list \<Rightarrow> 'l \<Rightarrow> 'w \<Rightarrow> 'w result"
  print_beta_images :: "('l, 'b) args \<Rightarrow> pyval \<Rightarrow> 'l \<Rightarrow> 'w \<Rightarrow> 'w result"
  encode_png :: "('l, 'b) args \<Rightarrow> 'w \<Rightarrow> 'g result"

record ('b, 'g) output_2 =
  global_stats :: 'g
  local_stats :: "(string \<times> 'b) list"

record ('b, 'g) computation_output_2 =
  output_2 :: "('b, 'g) output_2"
  success :: bool

text \<open>
  Division where an operand may still be the Python integer 0 that the builtin
  \<^verbatim>\<open>sum\<close> returns for no sites: \<^verbatim>\<open>0 / 0\<close> on Python integers raises.
\<close>

definition as_array :: "ndarray option \<Rightarrow> ndarray" where
  "as_array a = (case a of None \<Rightarrow> scalar (Fin 0) | Some x \<Rightarrow> x)"

definition py_div :: "ndarray option \<Rightarrow> ndarray option \<Rightarrow> ndarray result" where
  "py_div a b =
     (case (a, b) of
        (None, None) \<Rightarrow> Inl ZeroDivisionError
      | _ \<Rightarrow> nd_div (as_array a) (as_array b))"

text \<open>\<^verbatim>\<open>len(a)\<close> and \<^verbatim>\<open>a[i]\<close> on an array, \<^verbatim>\<open>a.diagonal()\<close>.\<close>

definition py_len :: "ndarray \<Rightarrow> nat result" where
  "py_len a = (case shape a of [] \<Rightarrow> Inl TypeError | n # _ \<Rightarrow> Inr n)"

definition nd_index :: "ndarray \<Rightarrow> nat \<Rightarrow> ndarray result" where
  "nd_index a i =
     (case shape a of
        [] \<Rightarrow> Inl IndexError
      | n # ns \<Rightarrow>
          if i < n
          then Inr (NDArray ns (take (prod_list ns) (drop (i * prod_list ns) (elems a))))
          else Inl IndexError)"

definition nd_diagonal :: "ndarray \<Rightarrow> ndarray result" where
  "nd_diagonal a =
     (case shape a of
        n # m # rest \<Rightarrow>
          Inr (NDArray (rest @ [min n m])
                 (map (\<lambda>idx. item a (last idx # last idx # butlast idx))
                      (all_indices (rest @ [min n m]))))
      | _ \<Rightarrow> Inl (ValueError ''diag requires an array of at least two dimensions''))"

text \<open>Lines 142 to 148: the three sums over the sites.\<close>

definition global_sums ::
  "(string \<times> ('l, 'b) site) list \<Rightarrow> (ndarray option \<times> ndarray option \<times> ndarray option) result" where
  "global_sums input_list =
     bind (bind (comprehension
                   (\<lambda>(site, r). bind (getitem ''SSE_local'' (SSE_local r)) np_array) input_list)
                py_sum) (\<lambda>SSE_global.
     bind (bind (comprehension
                   (\<lambda>(site, r). bind (getitem ''SST_local'' (SST_local r)) np_array) input_list)
                py_sum) (\<lambda>SST_global.
     bind (bind (comprehension
                   (\<lambda>(site, r). bind (getitem ''varX_matrix_local'' (varX_matrix_local r)) np_array)
                   input_list)
                py_sum) (\<lambda>varX_matrix_global.
     Inr (SSE_global, SST_global, varX_matrix_global))))"

text \<open>Lines 157 to 160: the body of the loop over the output dimensions.\<close>

definition dimension_statistics ::
  "('l, 'b, 'g, 'w) collaborators \<Rightarrow> ndarray \<Rightarrow> ndarray \<Rightarrow> pyval \<Rightarrow> pyval \<Rightarrow> nat
     \<Rightarrow> (pyval \<times> pyval) result" where
  "dimension_statistics env MSE varX_matrix_global avg_beta_vector dof_global i =
     bind (nd_index MSE i) (\<lambda>MSE_i.
     bind (linalg_inv env varX_matrix_global) (\<lambda>inverse.
     bind (nd_mul MSE_i inverse) (\<lambda>var_covar_beta_global.
     bind (nd_diagonal var_covar_beta_global) (\<lambda>diag.
     let se_beta_global = nd_sqrt diag in
     bind (py_index avg_beta_vector i) (\<lambda>beta_i.
     bind (np_array beta_i) (\<lambda>beta_arr.
     bind (nd_div beta_arr se_beta_global) (\<lambda>quotient.
     let ts = tolist quotient in
     bind (py_index dof_global i) (\<lambda>dof_i.
     bind (t_to_p env ts dof_i) (\<lambda>ps.
     Inr (ts, ps))))))))))"

text \<open>Lines 142 to 162: the pair \<open>(ts_global, ps_global)\<close> that the loop builds.\<close>

definition fit_statistics ::
  "('l, 'b, 'g, 'w) collaborators \<Rightarrow> (string \<times> ('l, 'b) site) list \<Rightarrow> pyval \<Rightarrow> pyval
     \<Rightarrow> (pyval list \<times> pyval list) result" where
  "fit_statistics env input_list avg_beta_vector dof_global =
     bind (global_sums input_list) (\<lambda>(SSE_global, SST_global, varX_matrix_global).
     bind (py_div SSE_global SST_global) (\<lambda>ratio.
     bind (nd_sub (scalar (Fin 1)) ratio) (\<lambda>r_squared_global.
     bind (np_array dof_global) (\<lambda>dof_array.
     bind (nd_div (as_array SSE_global) dof_array) (\<lambda>MSE.
     bind (py_len MSE) (\<lambda>n.
     bind (comprehension
             (dimension_statistics env MSE (as_array varX_matrix_global) avg_beta_vector dof_global)
             [0..<n]) (\<lambda>stats.
     Inr (map fst stats, map snd stats))))))))"

definition remote_2 ::
  "('l, 'b, 'g, 'w) collaborators \<Rightarrow> ('l, 'b) args \<Rightarrow> 'w
     \<Rightarrow> (('b, 'g) computation_output_2 \<times> 'w) result" where
  "remote_2 env args w =
     (let input_list = input args; cache_list = cache args in
     bind (getitem ''X_labels'' (cache_X_labels cache_list)) (\<lambda>X_labels'.
     bind (getitem ''local_stats_dict'' (cache_local_stats_dict cache_list))
       (\<lambda>all_local_stats_dicts.
     bind (getitem ''avg_beta_vector'' (cache_avg_beta_vector cache_list)) (\<lambda>avg_beta_vector.
     bind (getitem ''dof_global'' (cache_dof_global cache_list)) (\<lambda>dof_global.
     bind (fit_statistics env input_list avg_beta_vector dof_global) (\<lambda>(ts_global, ps_global).
     bind (print_pvals env args ps_global ts_global X_labels' w) (\<lambda>w1.
     bind (print_beta_images env args avg_beta_vector X_labels' w1) (\<lambda>w2.
     let sites = map fst input_list;
         all_local_stats_dicts' = zip sites all_local_stats_dicts in
     bind (encode_png env args w2) (\<lambda>global_dict_list.
     Inr (\<lparr> output_2 = \<lparr> global_stats = global_dict_list,
                          local_stats = all_local_stats_dicts' \<rparr>,
             success = True \<rparr>, w2))))))))))"

section \<open>The dispatcher\<close>

text \<open>
  Modelled from the spec: \<^verbatim>\<open>regression.list_recursive\<close> is not part of \<^verbatim>\<open>remote.py\<close>;
  the spec describes it as the pure, recursive extraction of every value stored under the
  given key, here the \<^verbatim>\<open>computation_phase\<close> tag nested under each site's record.
\<close>

definition list_recursive :: "('l, 'b) args \<Rightarrow> string list" where
  "list_recursive parsed_args = List.map_filter (\<lambda>(site, r). computation_phase r) (input parsed_args)"

text \<open>What the process writes to standard output; an exception writes nothing.\<close>

datatype ('l, 'b, 'g) stdout =
  Wrote_1 "('l, 'b) computation_output_1"
| Wrote_2 "('b, 'g) computation_output_2"

definition main ::
  "('l, 'b, 'g, 'w) collaborators \<Rightarrow> ('l, 'b) args \<Rightarrow> 'w \<Rightarrow> (('l, 'b, 'g) stdout \<times> 'w) result" where
  "main env parsed_args w =
     (let phase_key = list_recursive parsed_args in
      if ''local_1'' \<in> set phase_key
      then bind (remote_1 parsed_args) (\<lambda>computation_output. Inr (Wrote_1 computation_output, w))
      else if ''local_2'' \<in> set phase_key
      then bind (remote_2 env parsed_args w) (\<lambda>(computation_output, w').
             Inr (Wrote_2 computation_output, w'))
      else Inl (ValueError ''Error occurred at Remote''))"

definition has_tag :: "string \<Rightarrow> ('l, 'b) args \<Rightarrow> bool" where
  "has_tag t parsed_args = (\<exists>(site, r) \<in> set (input parsed_args). computation_phase r = Some t)"

section \<open>Concrete payloads and collaborators\<close>

text \<open>
  Payloads on which the model is run below. Labels are lists of strings and a site's
  statistics blob is a string. The collaborators used in the runs record what they are
  given: the rendering state is the list of rendering calls made so far, \<open>t_to_p\<close>
  returns its two arguments, and the inverse is the exact inverse of a matrix of order
  one or two, raising \<^verbatim>\<open>LinAlgError\<close> on a singular one as \<^verbatim>\<open>scipy.linalg.inv\<close> does.
\<close>

definition num :: "real \<Rightarrow> pyval" where
  "num x = Num (Fin x)"

definition phase_1_site ::
  "pyval \<Rightarrow> pyval \<Rightarrow> pyval \<Rightarrow> string \<Rightarrow> string \<Rightarrow> (string list, string) site" where
  "phase_1_site b m c blob tag =
     \<lparr> beta_vector_local = Some b, mean_y_local = Some m, count_local = Some c,
       X_labels = Some [''const'', ''age''], y_labels = Some [''voxel''],
       local_stats_dict = Some blob,
       SSE_local = None, SST_local = None, varX_matrix_local = None,
       computation_phase = Some tag \<rparr>"

definition phase_2_site :: "pyval \<Rightarrow> pyval \<Rightarrow> pyval \<Rightarrow> string \<Rightarrow> (string list, string) site" where
  "phase_2_site sse sst varX tag =
     \<lparr> beta_vector_local = None, mean_y_local = None, count_local = None,
       X_labels = None, y_labels = None, local_stats_dict = None,
       SSE_local = Some sse, SST_local = Some sst, varX_matrix_local = Some varX,
       computation_phase = Some tag \<rparr>"

definition empty_cache :: "(string list, string) cache" where
  "empty_cache =
     \<lparr> cache_avg_beta_vector = None, cache_mean_y_global = None, cache_dof_global = None,
       cache_X_labels = None, cache_y_labels = None, cache_local_stats_dict = None \<rparr>"

datatype render_call =
  Print_pvals "pyval list" "pyval list" "string list"
| Print_beta_images pyval "string list"

definition small_inv :: "ndarray \<Rightarrow> ndarray result" where
  "small_inv m =
     (case (shape m, elems m) of
        ([Suc 0], _) \<Rightarrow> Inl (ValueError ''expected square matrix'')
      | ([Suc 0, Suc 0], [Fin a]) \<Rightarrow>
          if a = 0 then Inl LinAlgError else Inr (NDArray [1, 1] [Fin (1 / a)])
      | ([Suc (Suc 0), Suc (Suc 0)], [Fin a, Fin b, Fin c, Fin d]) \<Rightarrow>
          if a * d - b * c = 0 then Inl LinAlgError
          else Inr (NDArray [2, 2]
                      [Fin (d / (a * d - b * c)), Fin (- b / (a * d - b * c)),
                       Fin (- c / (a * d - b * c)), Fin (a / (a * d - b * c))])
      | _ \<Rightarrow> Inl (ValueError ''expected square matrix''))"

definition recording_env ::
  "(string list, string, nat, render_call list) collaborators" where
  "recording_env =
     \<lparr> linalg_inv = small_inv,
       t_to_p = (\<lambda>ts dof. Inr (List [ts, dof])),
       print_pvals = (\<lambda>args ps ts labels w. Inr (w @ [Print_pvals ps ts labels])),
       print_beta_images = (\<lambda>args beta labels w. Inr (w @ [Print_beta_images beta labels])),
       encode_png = (\<lambda>args w. Inr (length w)) \<rparr>"

text \<open>
  A numeric field of a site's record read as an array (\<open>None\<close> when the field is
  missing or ragged), and the array of shape \<open>s\<close> that holds the finite numbers \<open>xs\<close>.
\<close>

definition local_array :: "(('l, 'b) site \<Rightarrow> pyval option) \<Rightarrow> ('l, 'b) site \<Rightarrow> ndarray option" where
  "local_array field r =
     (case field r of
        None \<Rightarrow> None
      | Some v \<Rightarrow> (case np_array v of Inl e \<Rightarrow> None | Inr a \<Rightarrow> Some a))"

definition finite_array :: "nat list \<Rightarrow> real list \<Rightarrow> ndarray" where
  "finite_array s xs = NDArray s (map Fin xs)"

text \<open>
  The standard error of a coefficient in the words of the specification: the square root
  of the mean squared error of the output dimension (its sum of squared errors divided by
  its degrees of freedom) times the coefficient's diagonal entry of the inverse of the
  global cross-product matrix.
\<close>

definition standard_error :: "real \<Rightarrow> real \<Rightarrow> npfloat \<Rightarrow> npfloat" where
  "standard_error sse_i dof_i inverse_jj = fsqrt (fmul (fdiv (Fin sse_i) (Fin dof_i)) inverse_jj)"

text \<open>
  The values of numpy's 64-bit integers. Counts arrive as JSON integers and are summed
  as such; as long as the counts and the result stay in this range the sum does not
  wrap around, and exact arithmetic computes what numpy computes.
\<close>

definition int64_range :: "real \<Rightarrow> bool" where
  "int64_range x = (- (2 ^ 63) \<le> x \<and> x < 2 ^ 63)"

text \<open>
  The t-statistics of output dimension \<open>i\<close> in the words of the specification, from the
  entries \<open>B\<close> of a coefficient array of \<open>p\<close> columns (row-major, one row per output
  dimension) and the degrees of freedom \<open>d\<close>: coefficient \<open>j\<close> of row \<open>i\<close> of the array
  divided by its standard error, which is obtained from the global sums of squared
  errors \<open>sse\<close>, the degrees of freedom of that dimension and the inverse \<open>H\<close>.
\<close>

definition t_statistics_row ::
  "npfloat list \<Rightarrow> real list \<Rightarrow> real list \<Rightarrow> npfloat list \<Rightarrow> nat \<Rightarrow> nat \<Rightarrow> pyval" where
  "t_statistics_row B d sse H p i =
     List (map (\<lambda>j. Num (fdiv (B ! (i * p + j))
                             (standard_error (sse ! i) (d ! i) (H ! (j * p + j)))))
             [0..<p])"

text \<open>The number of axes of the coefficient array a site sent, if it sent one.\<close>

definition beta_ndim :: "('l, 'b) site \<Rightarrow> nat option" where
  "beta_ndim r =
     (case beta_vector_local r of
        None \<Rightarrow> None
      | Some b \<Rightarrow> (case np_array b of Inl e \<Rightarrow> None | Inr a \<Rightarrow> Some (length (shape a))))"

text \<open>
  Two sites, one output dimension, two coefficients; the same two sites with a plain
  coefficient vector each; and with a coefficient array of three axes each.
\<close>

definition payload_2d :: "(string list, string) args" where
  "payload_2d =
     \<lparr> input =
         [(''site_a'', phase_1_site (List [List [num 1, num 2]]) (List [num 2]) (List [num 10])
                        ''stats of a'' ''local_1''),
          (''site_b'', phase_1_site (List [List [num 3, num 4]]) (List [num 4]) (List [num 30])
                        ''stats of b'' ''local_1'')],
       cache = empty_cache \<rparr>"

definition payload_1d :: "(string list, string) args" where
  "payload_1d =
     \<lparr> input =
         [(''site_a'', phase_1_site (List [num 1, num 2]) (num 2) (num 10)
                        ''stats of a'' ''local_1''),
          (''site_b'', phase_1_site (List [num 3, num 4]) (num 4) (num 30)
                        ''stats of b'' ''local_1'')],
       cache = empty_cache \<rparr>"

definition payload_3d :: "(string list, string) args" where
  "payload_3d =
     \<lparr> input =
         [(''site_a'', phase_1_site (List [List [List [num 1, num 2]]]) (num 2) (num 10)
                        ''stats of a'' ''local_1''),
          (''site_b'', phase_1_site (List [List [List [num 3, num 4]]]) (num 4) (num 30)
                        ''stats of b'' ''local_1'')],
       cache = empty_cache \<rparr>"

text \<open>
  Two sites and two output dimensions, with the mean response a list and the count a
  plain integer, as the docstring of \<^verbatim>\<open>remote_1\<close> describes them.
\<close>

definition payload_scalar_counts :: "(string list, string) args" where
  "payload_scalar_counts =
     \<lparr> input =
         [(''site_a'', phase_1_site (List [List [num 1, num 2], List [num 5, num 6]])
                        (List [num 2, num 5]) (num 10) ''stats of a'' ''local_1''),
          (''site_b'', phase_1_site (List [List [num 3, num 4], List [num 7, num 8]])
                        (List [num 4, num 1]) (num 30) ''stats of b'' ''local_1'')],
       cache = empty_cache \<rparr>"

text \<open>Two sites whose mean response and count are plain numbers.\<close>

definition payload_scalars :: "(string list, string) args" where
  "payload_scalars =
     \<lparr> input =
         [(''site_a'', phase_1_site (List [List [num 1, num 2]]) (num 2) (num 10)
                        ''stats of a'' ''local_1''),
          (''site_b'', phase_1_site (List [List [num 3, num 4]]) (num 4) (num 30)
                        ''stats of b'' ''local_1'')],
       cache = empty_cache \<rparr>"

text \<open>The cache that \<open>remote_1\<close> emits for \<open>payload_2d\<close>.\<close>

definition cache_2d :: "(string list, string) cache" where
  "cache_2d =
     \<lparr> cache_avg_beta_vector = Some (List [List [num 2, num 3]]),
       cache_mean_y_global = Some (List [num (7 / 2)]),
       cache_dof_global = Some (List [num 38]),
       cache_X_labels = Some [''const'', ''age''],
       cache_y_labels = Some [''voxel''],
       cache_local_stats_dict = Some [''stats of a'', ''stats of b''] \<rparr>"

text \<open>What \<open>remote_1\<close> returns for \<open>payload_2d\<close>.\<close>

definition result_2d :: "(string list, string) computation_output_1" where
  "result_2d =
     \<lparr> output_dict = \<lparr> out_avg_beta_vector = List [List [num 2, num 3]],
                       out_mean_y_global = List [num (7 / 2)],
                       out_computation_phase = ''remote_1'' \<rparr>,
       cache_dict = cache_2d \<rparr>"

text \<open>
  Phase-2 payloads for that cache: the two sites in the order of Phase 1, the same
  two sites in the other order, and a payload with no output dimension whose second
  covariate is zero at every site.
\<close>

definition payload_phase_2 :: "(string list, string) args" where
  "payload_phase_2 =
     \<lparr> input =
         [(''site_a'', phase_2_site (List [num 19]) (List [num 50])
                        (List [List [num (1 / 2), num 0], List [num 0, num 2]]) ''local_2''),
          (''site_b'', phase_2_site (List [num 133]) (List [num 150])
                        (List [List [num (1 / 2), num 0], List [num 0, num 2]]) ''local_2'')],
       cache = cache_2d \<rparr>"

definition payload_phase_2_reordered :: "(string list, string) args" where
  "payload_phase_2_reordered =
     \<lparr> input =
         [(''site_b'', phase_2_site (List [num 133]) (List [num 150])
                        (List [List [num (1 / 2), num 0], List [num 0, num 2]]) ''local_2''),
          (''site_a'', phase_2_site (List [num 19]) (List [num 50])
                        (List [List [num (1 / 2), num 0], List [num 0, num 2]]) ''local_2'')],
       cache = cache_2d \<rparr>"

definition payload_no_dimension :: "(string list, string) args" where
  "payload_no_dimension =
     \<lparr> input =
         [(''site_a'', phase_2_site (List []) (List [])
                        (List [List [num 1, num 0], List [num 0, num 0]]) ''local_2''),
          (''site_b'', phase_2_site (List []) (List [])
                        (List [List [num 2, num 0], List [num 0, num 0]]) ''local_2'')],
       cache =
         \<lparr> cache_avg_beta_vector = Some (List [List [num 2, num 3]]),
           cache_mean_y_global = Some (List []),
           cache_dof_global = Some (List []),
           cache_X_labels = Some [''const'', ''age''],
           cache_y_labels = Some [],
           cache_local_stats_dict = Some [''stats of a'', ''stats of b''] \<rparr> \<rparr>"

definition payload_singular :: "(string list, string) args" where
  "payload_singular =
     \<lparr> input =
         [(''site_a'', phase_2_site (List [num 19]) (List [num 50])
                        (List [List [num 1, num 0], List [num 0, num 0]]) ''local_2''),
          (''site_b'', phase_2_site (List [num 133]) (List [num 150])
                        (List [List [num 2, num 0], List [num 0, num 0]]) ''local_2'')],
       cache = cache_2d \<rparr>"

text \<open>
  A Phase-2 payload with one output dimension and three covariates whose summed
  cross-product matrix has the rows \<open>[1, 2, 3]\<close>, \<open>[4, 5, 6]\<close> and \<open>[7, 8, 9]\<close>: the
  first row minus twice the second plus the third is zero, so the matrix is singular.
\<close>

definition payload_collinear :: "(string list, string) args" where
  "payload_collinear =
     \<lparr> input =
         [(''site_a'', phase_2_site (List [num 19]) (List [num 50])
                        (List [List [num (1 / 2), num 1, num (3 / 2)],
                               List [num 2, num (5 / 2), num 3],
                               List [num (7 / 2), num 4, num (9 / 2)]]) ''local_2''),
          (''site_b'', phase_2_site (List [num 19]) (List [num 50])
                        (List [List [num (1 / 2), num 1, num (3 / 2)],
                               List [num 2, num (5 / 2), num 3],
                               List [num (7 / 2), num 4, num (9 / 2)]]) ''local_2'')],
       cache =
         \<lparr> cache_avg_beta_vector = Some (List [List [num 1, num 2, num 3]]),
           cache_mean_y_global = Some (List [num (7 / 2)]),
           cache_dof_global = Some (List [num 38]),
           cache_X_labels = Some [''const'', ''age'', ''sex''],
           cache_y_labels = Some [''voxel''],
           cache_local_stats_dict = Some [''stats of a'', ''stats of b''] \<rparr> \<rparr>"

text \<open>
  An inversion routine that treats this matrix as LU factorisation in double precision
  does: rounding leaves a last pivot of the order \<open>1e-16\<close> instead of zero, the
  singularity goes unnoticed, and a matrix with entries of the order \<open>1e15\<close> is
  returned. On every other matrix it is \<open>small_inv\<close>.
\<close>

definition rounding_inv :: "ndarray \<Rightarrow> ndarray result" where
  "rounding_inv m =
     (if m = finite_array [3, 3] [1, 2, 3, 4, 5, 6, 7, 8, 9]
      then Inr (finite_array [3, 3]
                  [3152519739159347, - 6305039478318694, 3152519739159347,
                   - 6305039478318694, 12610078956637388, - 6305039478318694,
                   3152519739159347, - 6305039478318694, 3152519739159347])
      else small_inv m)"

definition rounding_env ::
  "(string list, string, nat, render_call list) collaborators" where
  "rounding_env = recording_env \<lparr> linalg_inv := rounding_inv \<rparr>"

text \<open>Rendering routines that raise whenever they are called.\<close>

definition failing_print_pvals ::
  "(string list, string) args \<Rightarrow> pyval list \<Rightarrow> pyval list \<Rightarrow> string list
     \<Rightarrow> render_call list \<Rightarrow> render_call list result" where
  "failing_print_pvals args ps ts labels w = Inl (OtherError ''print_pvals'')"

definition failing_print_beta_images ::
  "(string list, string) args \<Rightarrow> pyval \<Rightarrow> string list
     \<Rightarrow> render_call list \<Rightarrow> render_call list result" where
  "failing_print_beta_images args beta labels w = Inl (OtherError ''print_beta_images'')"

definition failing_encode_png :: "(string list, string) args \<Rightarrow> render_call list \<Rightarrow> nat result" where
  "failing_encode_png args w = Inl (OtherError ''encode_png'')"

text \<open>
  Payloads for the dispatcher: one whose sites carry both tags, and one whose sites
  carry neither.
\<close>

definition payload_mixed :: "(string list, string) args" where
  "payload_mixed =
     \<lparr> input =
         [(''site_a'', phase_1_site (List [List [num 1, num 2]]) (List [num 2]) (List [num 10])
                        ''stats of a'' ''local_2''),
          (''site_b'', phase_1_site (List [List [num 3, num 4]]) (List [num 4]) (List [num 30])
                        ''stats of b'' ''local_1'')],
       cache = empty_cache \<rparr>"

definition payload_untagged :: "(string list, string) args" where
  "payload_untagged =
     \<lparr> input =
         [(''site_a'', phase_1_site (List [List [num 1, num 2]]) (List [num 2]) (List [num 10])
                        ''stats of a'' ''remote_1''),
          (''site_b'', (phase_1_site (List [List [num 3, num 4]]) (List [num 4]) (List [num 30])
                        ''stats of b'' ''local_1'') \<lparr> computation_phase := None \<rparr>)],
       cache = empty_cache \<rparr>"

section \<open>Running the model\<close>

lemmas eval_defs =
  bind_def getitem_def first_item_def np_average_axis0_def nd_stack_def np_sum_axis0_def
  scalar_def fsum_def nd_mul_def nd_div_def nd_binop_def broadcast_shapes_def bc_index_def
  item_def py_sum_def shape_at_def minus_int_def nd_sub_def nd_add_def tolist_def fsub_def
  as_array_def py_div_def py_len_def nd_index_def nd_diagonal_def nd_sqrt_def global_sums_def
  dimension_statistics_def fit_statistics_def remote_2_def remote_1_def list_recursive_def
  main_def num_def phase_1_site_def phase_2_site_def empty_cache_def small_inv_def
  recording_env_def inf_of_sign_def upt_rec Let_def

lemma remote_1_payload_2d:
  "remote_1 payload_2d =
     Inr \<lparr> output_dict = \<lparr> out_avg_beta_vector = List [List [num 2, num 3]],
                           out_mean_y_global = List [num (7 / 2)],
                           out_computation_phase = ''remote_1'' \<rparr>,
           cache_dict = cache_2d \<rparr>"
  by (simp add: payload_2d_def cache_2d_def eval_defs)

section \<open>Results as values\<close>

lemma bind_eq_Inr: "bind m f = Inr y \<longleftrightarrow> (\<exists>v. m = Inr v \<and> f v = Inr y)"
  by (cases m) (simp_all add: bind_def)

lemma bind_Inr: "bind (Inr v) f = f v"
  by (simp add: bind_def)

lemma bind_Inl: "bind (Inl e) f = Inl e"
  by (simp add: bind_def)

lemma not_Inr_is_Inl: "(\<forall>y. m \<noteq> Inr y) \<Longrightarrow> \<exists>e. m = Inl e"
  by (cases m) auto

lemma comprehension_Inr:
  "comprehension f xs = Inr ys \<longleftrightarrow> list_all2 (\<lambda>x y. f x = Inr y) xs ys"
proof (induction xs arbitrary: ys)
  case Nil
  show ?case by auto
next
  case (Cons x xs)
  show ?case
    by (cases ys) (auto simp: Cons.IH [symmetric] split: sum.splits)
qed

lemma nd_stack_shape:
  assumes "nd_stack as = Inr a" and "b \<in> set as"
  shows "shape a = length as # shape b"
  using assms
  by (cases as) (auto simp: nd_stack_def list_all_iff split: if_splits)

lemma np_sum_axis0_shape:
  "np_sum_axis0 a = Inr s \<Longrightarrow> shape a = n # ns \<Longrightarrow> shape s = ns"
  by (auto simp: np_sum_axis0_def)

lemma np_average_axis0_shape:
  assumes "np_average_axis0 as = Inr avg" and "b \<in> set as"
  shows "shape b = shape avg"
proof -
  from assms(1) obtain a s where a: "nd_stack as = Inr a" and s: "np_sum_axis0 a = Inr s"
    and avg: "shape avg = shape s"
    by (auto simp: np_average_axis0_def bind_eq_Inr split: if_splits)
  from nd_stack_shape [OF a assms(2)] have "shape a = length as # shape b" .
  from np_sum_axis0_shape [OF s this] avg show ?thesis by simp
qed

section \<open>Phase 1 needs a coefficient array of at least two axes\<close>

lemma remote_1_Inr_betas:
  assumes "remote_1 a = Inr res"
  obtains betas avg p where
    "list_all2 (\<lambda>(site, r) arr. \<exists>b. beta_vector_local r = Some b \<and> np_array b = Inr arr)
       (input a) betas"
    and "np_average_axis0 betas = Inr avg" and "shape_at avg 1 = Inr p"
proof -
  from assms obtain betas avg p where
    b: "comprehension
          (\<lambda>(site, r). bind (getitem ''beta_vector_local'' (beta_vector_local r)) np_array)
          (input a) = Inr betas"
    and avg: "np_average_axis0 betas = Inr avg" and p: "shape_at avg 1 = Inr p"
    by (auto simp: remote_1_def Let_def bind_eq_Inr simp del: comprehension.simps np_array.simps)
  from b have "list_all2 (\<lambda>(site, r) arr. \<exists>b. beta_vector_local r = Some b \<and> np_array b = Inr arr)
                 (input a) betas"
    unfolding comprehension_Inr
    by (rule list_all2_mono) (auto simp: bind_eq_Inr getitem_def split: option.splits)
  with avg p that show thesis by blast
qed

lemma remote_1_Inr_ndim:
  assumes ok: "remote_1 a = Inr res" and mem: "(site, r) \<in> set (input a)"
  shows "\<exists>d. beta_ndim r = Some d \<and> 2 \<le> d"
proof -
  from ok obtain betas avg p where
    all: "list_all2 (\<lambda>(site, r) arr. \<exists>b. beta_vector_local r = Some b \<and> np_array b = Inr arr)
            (input a) betas"
    and avg: "np_average_axis0 betas = Inr avg" and p: "shape_at avg 1 = Inr p"
    by (rule remote_1_Inr_betas)
  from mem obtain i where i: "i < length (input a)" "input a ! i = (site, r)"
    by (auto simp: in_set_conv_nth)
  from all i obtain b where b: "beta_vector_local r = Some b" "np_array b = Inr (betas ! i)"
    and len: "i < length betas"
    by (auto simp: list_all2_conv_all_nth)
  from len have "betas ! i \<in> set betas" by simp
  with avg have "shape (betas ! i) = shape avg" by (rule np_average_axis0_shape)
  moreover from p have "1 < length (shape avg)"
    by (auto simp: shape_at_def split: if_splits)
  ultimately show ?thesis using b by (simp add: beta_ndim_def)
qed

text \<open>
  C10 (as amended). Whenever \<open>remote_1\<close> returns, every site sent a coefficient array
  of at least two axes; and a payload whose sites all sent a plain coefficient vector
  (one axis) makes \<open>remote_1\<close> raise instead of returning.
\<close>

theorem remote_1_needs_two_axes:
  "(remote_1 a = Inr res \<longrightarrow> (\<forall>(site, r) \<in> set (input a). \<exists>d. beta_ndim r = Some d \<and> 2 \<le> d))
   \<and> ((\<forall>(site, r) \<in> set (input a). beta_ndim r = Some 1) \<longrightarrow> (\<exists>e. remote_1 a = Inl e))"
proof (intro conjI impI)
  assume "remote_1 a = Inr res"
  then show "\<forall>(site, r) \<in> set (input a). \<exists>d. beta_ndim r = Some d \<and> 2 \<le> d"
    by (auto dest: remote_1_Inr_ndim)
next
  assume one: "\<forall>(site, r) \<in> set (input a). beta_ndim r = Some 1"
  have "remote_1 a \<noteq> Inr y" for y
  proof
    assume ok: "remote_1 a = Inr y"
    then have "input a \<noteq> []"
      by (auto simp: remote_1_def Let_def bind_eq_Inr first_item_def)
    then obtain site r where mem: "(site, r) \<in> set (input a)"
      by (cases "input a") auto
    from remote_1_Inr_ndim [OF ok mem] one mem show False by auto
  qed
  then show "\<exists>e. remote_1 a = Inl e" by (intro not_Inr_is_Inl) simp
qed

text \<open>The two cases on \<open>payload_2d\<close> and \<open>payload_1d\<close>.\<close>

theorem remote_1_needs_two_axes_witness:
  "list_all (\<lambda>(site, r). \<exists>d. beta_ndim r = Some d \<and> 2 \<le> d) (input payload_2d)
   \<and> map (beta_ndim \<circ> snd) (input payload_1d) = [Some 1, Some 1]
   \<and> (\<exists>e. remote_1 payload_1d = Inl e)"
proof -
  have one: "map (beta_ndim \<circ> snd) (input payload_1d) = [Some 1, Some 1]"
    by (simp add: payload_1d_def beta_ndim_def eval_defs)
  then have all_one: "\<forall>(site, r) \<in> set (input payload_1d). beta_ndim r = Some 1"
    by (simp add: payload_1d_def)
  from remote_1_needs_two_axes [of payload_2d] remote_1_payload_2d
  have "\<forall>(site, r) \<in> set (input payload_2d). \<exists>d. beta_ndim r = Some d \<and> 2 \<le> d" by blast
  then have "list_all (\<lambda>(site, r). \<exists>d. beta_ndim r = Some d \<and> 2 \<le> d) (input payload_2d)"
    by (simp add: list_all_iff)
  moreover from remote_1_needs_two_axes [of payload_1d] all_one
  have "\<exists>e. remote_1 payload_1d = Inl e" by blast
  ultimately show ?thesis using one by blast
qed

text \<open>
  A coefficient array of three axes is accepted: \<open>shape[1]\<close> exists, and \<open>remote_1\<close>
  returns although no site sent a two-dimensional array.
\<close>

theorem three_axes_accepted:
  "remote_1 payload_3d =
     Inr \<lparr> output_dict = \<lparr> out_avg_beta_vector = List [List [List [num 2, num 3]]],
                           out_mean_y_global = num (7 / 2),
                           out_computation_phase = ''remote_1'' \<rparr>,
           cache_dict = \<lparr> cache_avg_beta_vector = Some (List [List [List [num 2, num 3]]]),
                          cache_mean_y_global = Some (num (7 / 2)),
                          cache_dof_global = Some (num 39),
                          cache_X_labels = Some [''const'', ''age''],
                          cache_y_labels = Some [''voxel''],
                          cache_local_stats_dict = Some [''stats of a'', ''stats of b''] \<rparr> \<rparr>
   \<and> map (beta_ndim \<circ> snd) (input payload_3d) = [Some 3, Some 3]"
  by (simp add: payload_3d_def beta_ndim_def eval_defs)

section \<open>Routing by phase tag\<close>

lemma in_set_map_filter: "y \<in> set (List.map_filter f xs) \<longleftrightarrow> (\<exists>x \<in> set xs. f x = Some y)"
  by (induction xs) (auto split: option.splits)

lemma list_recursive_tags: "t \<in> set (list_recursive a) \<longleftrightarrow> has_tag t a"
  by (simp add: list_recursive_def has_tag_def in_set_map_filter case_prod_beta)

text \<open>
  C7. The dispatcher hands the payload to \<open>remote_1\<close> as soon as one site carries the
  tag \<open>local_1\<close>, whatever the other sites carry; otherwise to \<open>remote_2\<close> when a site
  carries \<open>local_2\<close>; otherwise it raises \<^verbatim>\<open>ValueError\<close> and writes nothing. What is
  written is the routed combiner's result, and its exception if it raises.
\<close>

theorem dispatcher_routes_by_tag:
  "(has_tag ''local_1'' a \<longrightarrow>
      main env a w = bind (remote_1 a) (\<lambda>out. Inr (Wrote_1 out, w)))
   \<and> (\<not> has_tag ''local_1'' a \<and> has_tag ''local_2'' a \<longrightarrow>
      main env a w = bind (remote_2 env a w) (\<lambda>(out, w'). Inr (Wrote_2 out, w')))
   \<and> (\<not> has_tag ''local_1'' a \<and> \<not> has_tag ''local_2'' a \<longrightarrow>
      main env a w = Inl (ValueError ''Error occurred at Remote''))"
  by (simp add: main_def Let_def list_recursive_tags)

lemma remote_2_payload_phase_2:
  "remote_2 recording_env payload_phase_2 [] =
     Inr (\<lparr> output_2 = \<lparr> global_stats = 2,
                          local_stats = [(''site_a'', ''stats of a''), (''site_b'', ''stats of b'')] \<rparr>,
             success = True \<rparr>,
          [Print_pvals [List [List [num 1, num 3], num 38]] [List [num 1, num 3]] [''const'', ''age''],
           Print_beta_images (List [List [num 2, num 3]]) [''const'', ''age'']])"
  by (simp add: payload_phase_2_def cache_2d_def eval_defs)

lemma remote_1_payload_mixed:
  "remote_1 payload_mixed =
     Inr \<lparr> output_dict = \<lparr> out_avg_beta_vector = List [List [num 2, num 3]],
                           out_mean_y_global = List [num (7 / 2)],
                           out_computation_phase = ''remote_1'' \<rparr>,
           cache_dict = cache_2d \<rparr>"
  by (simp add: payload_mixed_def cache_2d_def eval_defs)

text \<open>
  The three routes: a payload with both tags goes to \<open>remote_1\<close>, a payload tagged
  \<open>local_2\<close> only goes to \<open>remote_2\<close>, a payload with neither tag is refused.
\<close>

theorem dispatcher_routes_by_tag_witness:
  "main recording_env payload_mixed [] =
     Inr (Wrote_1 \<lparr> output_dict = \<lparr> out_avg_beta_vector = List [List [num 2, num 3]],
                                    out_mean_y_global = List [num (7 / 2)],
                                    out_computation_phase = ''remote_1'' \<rparr>,
                    cache_dict = cache_2d \<rparr>, [])
   \<and> main recording_env payload_phase_2 [] =
     Inr (Wrote_2 \<lparr> output_2 = \<lparr> global_stats = 2,
                          local_stats = [(''site_a'', ''stats of a''), (''site_b'', ''stats of b'')] \<rparr>,
             success = True \<rparr>,
          [Print_pvals [List [List [num 1, num 3], num 38]] [List [num 1, num 3]] [''const'', ''age''],
           Print_beta_images (List [List [num 2, num 3]]) [''const'', ''age'']])
   \<and> main recording_env payload_untagged [] = Inl (ValueError ''Error occurred at Remote'')"
proof -
  have mixed: "has_tag ''local_1'' payload_mixed"
    by (simp add: has_tag_def payload_mixed_def phase_1_site_def)
  have two: "\<not> has_tag ''local_1'' payload_phase_2 \<and> has_tag ''local_2'' payload_phase_2"
    by (simp add: has_tag_def payload_phase_2_def phase_2_site_def)
  have none: "\<not> has_tag ''local_1'' payload_untagged \<and> \<not> has_tag ''local_2'' payload_untagged"
    by (simp add: has_tag_def payload_untagged_def phase_1_site_def)
  from dispatcher_routes_by_tag [of payload_mixed recording_env "[]"] mixed
  have "main recording_env payload_mixed [] =
          bind (remote_1 payload_mixed) (\<lambda>out. Inr (Wrote_1 out, []))" by blast
  moreover from dispatcher_routes_by_tag [of payload_phase_2 recording_env "[]"] two
  have "main recording_env payload_phase_2 [] =
          bind (remote_2 recording_env payload_phase_2 []) (\<lambda>(out, w'). Inr (Wrote_2 out, w'))"
    by blast
  moreover from dispatcher_routes_by_tag [of payload_untagged recording_env "[]"] none
  have "main recording_env payload_untagged [] = Inl (ValueError ''Error occurred at Remote'')"
    by blast
  ultimately show ?thesis
    by (simp add: remote_1_payload_mixed remote_2_payload_phase_2 bind_Inr)
qed

section \<open>The per-site statistics in the final output\<close>

text \<open>
  C9. In Phase 1 \<open>site_a\<close> supplies the blob \<open>stats of a\<close> and \<open>site_b\<close> the blob
  \<open>stats of b\<close>. When the Phase-2 payload lists the same two sites in the other order,
  the final output files each blob under the other site: the blobs are cached as a list
  in the order of Phase 1 and zipped with the site keys in the order of Phase 2.
\<close>

theorem local_stats_follow_payload_order:
  "map (\<lambda>(site, r). (site, local_stats_dict r)) (input payload_2d) =
     [(''site_a'', Some ''stats of a''), (''site_b'', Some ''stats of b'')]
   \<and> map_sum id cache_dict (remote_1 payload_2d) = Inr (cache payload_phase_2_reordered)
   \<and> map_sum id (\<lambda>(out, w). local_stats (output_2 out))
        (remote_2 recording_env payload_phase_2_reordered []) =
     Inr [(''site_b'', ''stats of a''), (''site_a'', ''stats of b'')]"
proof (intro conjI)
  show "map (\<lambda>(site, r). (site, local_stats_dict r)) (input payload_2d) =
          [(''site_a'', Some ''stats of a''), (''site_b'', Some ''stats of b'')]"
    by (simp add: payload_2d_def phase_1_site_def)
  show "map_sum id cache_dict (remote_1 payload_2d) = Inr (cache payload_phase_2_reordered)"
    by (simp add: remote_1_payload_2d payload_phase_2_reordered_def)
  show "map_sum id (\<lambda>(out, w). local_stats (output_2 out))
          (remote_2 recording_env payload_phase_2_reordered []) =
        Inr [(''site_b'', ''stats of a''), (''site_a'', ''stats of b'')]"
    by (simp add: payload_phase_2_reordered_def cache_2d_def eval_defs)
qed

section \<open>Arrays: indices and broadcasting\<close>

lemma concat_shifted_upt:
  "concat (map (\<lambda>i. map (\<lambda>k. i * p + k) [0..<p]) [0..<n]) = [0..<n * p]"
proof (induction n)
  case 0
  show ?case by simp
next
  case (Suc n)
  have a: "map (\<lambda>k. n * p + k) [0..<p] = [n * p..<n * p + p]"
    by (simp add: map_add_upt add.commute)
  have b: "[0..<n * p + p] = [0..<n * p] @ [n * p..<n * p + p]"
    by (rule upt_add_eq_append) simp
  have "concat (map (\<lambda>i. map (\<lambda>k. i * p + k) [0..<p]) [0..<Suc n]) =
        concat (map (\<lambda>i. map (\<lambda>k. i * p + k) [0..<p]) [0..<n]) @ map (\<lambda>k. n * p + k) [0..<p]"
    by simp
  also have "\<dots> = [0..<n * p] @ [n * p..<n * p + p]"
    by (simp only: Suc.IH a)
  also have "\<dots> = [0..<Suc n * p]"
    using b by (simp add: add.commute)
  finally show ?case .
qed

lemma flat_index_all_indices:
  "map (flat_index s) (all_indices s) = [0..<prod_list s]"
proof (induction s)
  case Nil
  show ?case by simp
next
  case (Cons n ns)
  have "map (flat_index (n # ns)) (all_indices (n # ns)) =
        concat (map (\<lambda>i. map (\<lambda>k. i * prod_list ns + k) (map (flat_index ns) (all_indices ns))) [0..<n])"
    by (simp add: map_concat comp_def)
  also have "\<dots> = [0..<n * prod_list ns]"
    by (simp only: Cons.IH concat_shifted_upt)
  finally show ?case by simp
qed

lemma items_all_indices:
  assumes "wf_array a"
  shows "map (item a) (all_indices (shape a)) = elems a"
proof -
  have "map (item a) (all_indices (shape a)) =
        map ((!) (elems a)) (map (flat_index (shape a)) (all_indices (shape a)))"
    by (simp add: item_def comp_def)
  also have "\<dots> = map ((!) (elems a)) [0..<length (elems a)]"
    using assms by (simp add: flat_index_all_indices wf_array_def)
  finally show ?thesis by (simp add: map_nth)
qed

lemma all_indices_bounded:
  "idx \<in> set (all_indices s) \<Longrightarrow> list_all2 (<) idx s"
  by (induction s arbitrary: idx) auto

lemma bc_index_same:
  assumes "idx \<in> set (all_indices s)"
  shows "bc_index s idx = idx"
proof -
  from assms have b: "list_all2 (<) idx s" by (rule all_indices_bounded)
  then have len: "length idx = length s" by (rule list_all2_lengthD)
  from b have "map2 (\<lambda>n i. if n = 1 then 0 else i) s idx = idx"
    by (induction idx s rule: list_all2_induct) auto
  with len show ?thesis by (simp add: bc_index_def)
qed

lemma broadcast_rev_same: "broadcast_rev s s = Some s"
  by (induction s) auto

lemma broadcast_shapes_same: "broadcast_shapes s s = Some s"
  by (simp add: broadcast_shapes_def broadcast_rev_same)

lemma broadcast_rev_Nil2: "broadcast_rev s [] = Some s"
  by (cases s) auto

lemma broadcast_shapes_scalar: "broadcast_shapes s [] = Some s" "broadcast_shapes [] s = Some s"
  by (simp_all add: broadcast_shapes_def broadcast_rev_Nil2)

lemma nd_binop_same_shape:
  assumes "wf_array a" and "wf_array b" and "shape a = shape b"
  shows "nd_binop f a b = Inr (NDArray (shape a) (map2 f (elems a) (elems b)))"
proof -
  have "map (\<lambda>idx. f (item a (bc_index (shape a) idx)) (item b (bc_index (shape b) idx)))
          (all_indices (shape a)) =
        map (\<lambda>idx. f (item a idx) (item b idx)) (all_indices (shape a))"
    using assms(3) by (intro map_cong refl) (simp add: bc_index_same)
  also have "\<dots> = map2 f (map (item a) (all_indices (shape a))) (map (item b) (all_indices (shape a)))"
    by (simp add: zip_map_map map_zip_map comp_def zip_same_conv_map)
  also have "\<dots> = map2 f (elems a) (elems b)"
    using items_all_indices [OF assms(1)] items_all_indices [OF assms(2)] assms(3) by simp
  finally show ?thesis
    using assms(3) by (simp add: nd_binop_def broadcast_shapes_same)
qed

lemma nd_binop_scalar_right:
  assumes "wf_array a"
  shows "nd_binop f a (scalar c) = Inr (NDArray (shape a) (map (\<lambda>x. f x c) (elems a)))"
proof -
  have "map (\<lambda>idx. f (item a (bc_index (shape a) idx)) (item (scalar c) (bc_index [] idx)))
          (all_indices (shape a)) =
        map (\<lambda>idx. f (item a idx) c) (all_indices (shape a))"
    by (intro map_cong refl) (simp add: bc_index_same, simp add: bc_index_def item_def scalar_def)
  also have "\<dots> = map (\<lambda>x. f x c) (map (item a) (all_indices (shape a)))"
    by (simp add: comp_def)
  finally show ?thesis
    using items_all_indices [OF assms]
    by (simp add: nd_binop_def broadcast_shapes_scalar scalar_def)
qed

lemma nd_binop_scalar_left:
  assumes "wf_array b"
  shows "nd_binop f (scalar c) b = Inr (NDArray (shape b) (map (f c) (elems b)))"
proof -
  have "map (\<lambda>idx. f (item (scalar c) (bc_index [] idx)) (item b (bc_index (shape b) idx)))
          (all_indices (shape b)) =
        map (\<lambda>idx. f c (item b idx)) (all_indices (shape b))"
    by (intro map_cong refl) (simp add: bc_index_same, simp add: bc_index_def item_def scalar_def)
  also have "\<dots> = map (f c) (map (item b) (all_indices (shape b)))"
    by (simp add: comp_def)
  finally show ?thesis
    using items_all_indices [OF assms]
    by (simp add: nd_binop_def broadcast_shapes_scalar scalar_def)
qed

section \<open>Arrays: stacking, sums and means\<close>

lemma length_concat_uniform:
  "\<forall>xs \<in> set xss. length xs = p \<Longrightarrow> length (concat xss) = length xss * p"
  by (induction xss) auto

lemma nth_concat_uniform:
  assumes "\<forall>xs \<in> set xss. length xs = p" and "i < length xss" and "k < p"
  shows "concat xss ! (i * p + k) = xss ! i ! k"
  using assms
proof (induction xss arbitrary: i)
  case Nil
  then show ?case by simp
next
  case (Cons xs xss)
  show ?case
  proof (cases i)
    case 0
    with Cons.prems show ?thesis by (simp add: nth_append)
  next
    case (Suc j)
    with Cons.prems have "concat xss ! (j * p + k) = xss ! j ! k"
      by (intro Cons.IH) auto
    with Suc Cons.prems show ?thesis by (simp add: nth_append)
  qed
qed

lemma nd_stack_wf:
  assumes "nd_stack as = Inr a" and "\<forall>b \<in> set as. wf_array b"
  shows "wf_array a"
proof (cases as)
  case Nil
  with assms show ?thesis by (auto simp: nd_stack_def wf_array_def)
next
  case (Cons b bs)
  with assms(1) have same: "\<forall>c \<in> set as. shape c = shape b"
    and a: "a = NDArray (length as # shape b) (concat (map elems as))"
    by (auto simp: nd_stack_def list_all_iff split: if_splits)
  from same assms(2) have "\<forall>xs \<in> set (map elems as). length xs = prod_list (shape b)"
    by (auto simp: wf_array_def)
  from length_concat_uniform [OF this] a show ?thesis by (simp add: wf_array_def)
qed

lemma np_array_wf_aux:
  "(\<forall>a. np_array v = Inr a \<longrightarrow> wf_array a)"
  "(\<forall>as. np_arrays vs = Inr as \<longrightarrow> (\<forall>b \<in> set as. wf_array b))"
proof (induction v and vs rule: np_array_np_arrays.induct)
  case (1 x)
  show ?case by (simp add: scalar_def wf_array_def)
next
  case (2 vs)
  then show ?case by (auto split: sum.splits dest: nd_stack_wf)
next
  case 3
  show ?case by simp
next
  case (4 v vs)
  then show ?case by (auto split: sum.splits)
qed

lemma np_array_wf: "np_array v = Inr a \<Longrightarrow> wf_array a"
  using np_array_wf_aux(1) by blast

lemma np_arrays_comprehension: "np_arrays vs = comprehension np_array vs"
  by (induction vs) (auto split: sum.splits)

text \<open>The arrays of one shape \<open>s\<close> with the finite elements \<open>xs\<close>, one array per row.\<close>

lemma fsum_Fin: "fsum (map Fin xs) = Fin (sum_list xs)"
proof -
  have "foldl fadd (Fin a) (map Fin xs) = Fin (a + sum_list xs)" for a
    by (induction xs arbitrary: a) (simp_all add: add.assoc)
  from this [of 0] show ?thesis by (simp add: fsum_def)
qed

lemma nd_stack_rows:
  assumes "rows \<noteq> []"
  shows "nd_stack (map (\<lambda>xs. NDArray s (map Fin xs)) rows) =
         Inr (NDArray (length rows # s) (concat (map (map Fin) rows)))"
  using assms by (cases rows) (simp_all add: nd_stack_def list_all_iff comp_def)

lemma sum_axis0_rows:
  assumes len: "\<forall>xs \<in> set rows. length xs = prod_list s"
  shows "np_sum_axis0 (NDArray (length rows # s) (concat (map (map Fin) rows))) =
         Inr (NDArray s (map (\<lambda>k. Fin (\<Sum>xs\<leftarrow>rows. xs ! k)) [0..<prod_list s]))"
proof -
  have "fsum (map (\<lambda>i. concat (map (map Fin) rows) ! (i * prod_list s + k)) [0..<length rows]) =
        Fin (\<Sum>xs\<leftarrow>rows. xs ! k)" if k: "k < prod_list s" for k
  proof -
    have "map (\<lambda>i. concat (map (map Fin) rows) ! (i * prod_list s + k)) [0..<length rows] =
          map (\<lambda>i. Fin (rows ! i ! k)) [0..<length rows]"
    proof (intro map_cong refl)
      fix i assume "i \<in> set [0..<length rows]"
      then have i: "i < length (map (map Fin) rows)" by simp
      have "\<forall>xs \<in> set (map (map Fin) rows). length xs = prod_list s"
        using len by simp
      from nth_concat_uniform [OF this i k] i len k
      show "concat (map (map Fin) rows) ! (i * prod_list s + k) = Fin (rows ! i ! k)"
        by simp
    qed
    also have "\<dots> = map Fin (map (\<lambda>xs. xs ! k) (map ((!) rows) [0..<length rows]))"
      by (simp add: comp_def)
    also have "\<dots> = map Fin (map (\<lambda>xs. xs ! k) rows)"
      by (simp only: map_nth)
    finally show ?thesis by (simp only: fsum_Fin)
  qed
  then show ?thesis
    by (simp add: np_sum_axis0_def cong: map_cong)
qed

lemma np_average_axis0_rows:
  assumes "rows \<noteq> []" and "\<forall>xs \<in> set rows. length xs = prod_list s"
  shows "np_average_axis0 (map (\<lambda>xs. NDArray s (map Fin xs)) rows) =
         (if prod_list s = 0 then Inl ZeroDivisionError
          else Inr (NDArray s (map (\<lambda>k. Fin ((\<Sum>xs\<leftarrow>rows. xs ! k) / real (length rows)))
                                 [0..<prod_list s])))"
  using assms
  by (simp add: np_average_axis0_def nd_stack_rows sum_axis0_rows bind_Inr comp_def)

section \<open>Phase 1: the combined statistics\<close>

lemma comprehension_local_arrays:
  assumes "comprehension (\<lambda>(site, r). bind (getitem key (field r)) np_array) inp = Inr as"
  shows "map (\<lambda>(site, r). local_array field r) inp = map Some as" and "\<forall>b \<in> set as. wf_array b"
proof -
  from assms have all: "list_all2 (\<lambda>(site, r) b. local_array field r = Some b \<and> wf_array b) inp as"
    unfolding comprehension_Inr
    by (rule list_all2_mono)
       (auto simp: bind_eq_Inr getitem_def local_array_def np_array_wf split: option.splits)
  then show "map (\<lambda>(site, r). local_array field r) inp = map Some as"
    by (induction rule: list_all2_induct) auto
  from all show "\<forall>b \<in> set as. wf_array b"
    by (induction rule: list_all2_induct) auto
qed

lemma finite_arrays_of_local_arrays:
  assumes "comprehension (\<lambda>(site, r). bind (getitem key (field r)) np_array) inp = Inr as"
    and "map (\<lambda>(site, r). local_array field r) inp = map (\<lambda>xs. Some (finite_array s xs)) rows"
  shows "as = map (finite_array s) rows" and "\<forall>xs \<in> set rows. length xs = prod_list s"
    and "length rows = length inp"
proof -
  from comprehension_local_arrays(1) [OF assms(1)] assms(2)
  have "map Some as = map Some (map (finite_array s) rows)" by (simp add: comp_def)
  then show as: "as = map (finite_array s) rows"
    by (simp only: inj_map_eq_map [OF inj_Some])
  from comprehension_local_arrays(2) [OF assms(1)] as
  show "\<forall>xs \<in> set rows. length xs = prod_list s"
    by (auto simp: wf_array_def finite_array_def)
  from assms(2) show "length rows = length inp"
    by (auto dest: map_eq_imp_length_eq)
qed

lemma remote_1_InrE:
  assumes "remote_1 a = Inr res"
  obtains betas avg_beta_vector means_list count_y_local means counts weighted numer denom
    mean_y_global summed p dof_global where
    "input a \<noteq> []"
    "comprehension
       (\<lambda>(site, r). bind (getitem ''beta_vector_local'' (beta_vector_local r)) np_array)
       (input a) = Inr betas"
    "np_average_axis0 betas = Inr avg_beta_vector"
    "comprehension (\<lambda>(site, r). getitem ''mean_y_local'' (mean_y_local r)) (input a) = Inr means_list"
    "comprehension
       (\<lambda>(site, r). bind (getitem ''count_local'' (count_local r)) np_array)
       (input a) = Inr count_y_local"
    "np_array (List means_list) = Inr means"
    "nd_stack count_y_local = Inr counts"
    "nd_mul means counts = Inr weighted"
    "np_sum_axis0 weighted = Inr numer"
    "np_sum_axis0 counts = Inr denom"
    "nd_div numer denom = Inr mean_y_global"
    "py_sum count_y_local = Inr summed"
    "shape_at avg_beta_vector 1 = Inr p"
    "minus_int summed p = Inr dof_global"
    "out_avg_beta_vector (output_dict res) = tolist avg_beta_vector"
    "out_mean_y_global (output_dict res) = tolist mean_y_global"
    "cache_avg_beta_vector (cache_dict res) = Some (tolist avg_beta_vector)"
    "cache_mean_y_global (cache_dict res) = Some (tolist mean_y_global)"
    "cache_dof_global (cache_dict res) = Some (tolist dof_global)"
proof -
  from assms have "input a \<noteq> []"
    by (auto simp: remote_1_def Let_def bind_eq_Inr first_item_def)
  with assms that show thesis
    by (auto simp: remote_1_def Let_def bind_eq_Inr
             simp del: comprehension.simps np_array.simps)
qed

text \<open>
  C1. When \<open>remote_1\<close> returns and the sites' coefficient arrays all have the shape \<open>s\<close>,
  with the finite entries \<open>Bs\<close> (one row-major list per site, in payload order), the
  coefficient array in the output and in the cache is the array of shape \<open>s\<close> whose
  \<open>k\<close>-th entry is the sum of the sites' \<open>k\<close>-th entries divided by the number of sites.
\<close>

theorem avg_beta_vector_is_unweighted_mean:
  assumes ok: "remote_1 a = Inr res"
    and betas: "map (\<lambda>(site, r). local_array beta_vector_local r) (input a) =
                map (\<lambda>xs. Some (finite_array s xs)) Bs"
  shows "out_avg_beta_vector (output_dict res) =
           tolist (finite_array s
             (map (\<lambda>k. (\<Sum>xs\<leftarrow>Bs. xs ! k) / real (length Bs)) [0..<prod_list s]))
       \<and> cache_avg_beta_vector (cache_dict res) =
           Some (tolist (finite_array s
             (map (\<lambda>k. (\<Sum>xs\<leftarrow>Bs. xs ! k) / real (length Bs)) [0..<prod_list s])))"
proof -
  from ok obtain bs avg where
    ne: "input a \<noteq> []"
    and bs: "comprehension
       (\<lambda>(site, r). bind (getitem ''beta_vector_local'' (beta_vector_local r)) np_array)
       (input a) = Inr bs"
    and avg: "np_average_axis0 bs = Inr avg"
    and out: "out_avg_beta_vector (output_dict res) = tolist avg"
      "cache_avg_beta_vector (cache_dict res) = Some (tolist avg)"
    by (rule remote_1_InrE)
  note rows = finite_arrays_of_local_arrays [OF bs betas]
  from rows(3) ne have "Bs \<noteq> []" by auto
  have "map (finite_array s) Bs = map (\<lambda>xs. NDArray s (map Fin xs)) Bs"
    by (simp add: finite_array_def)
  with np_average_axis0_rows [OF \<open>Bs \<noteq> []\<close> rows(2)] avg rows(1)
  have "avg = finite_array s
          (map (\<lambda>k. (\<Sum>xs\<leftarrow>Bs. xs ! k) / real (length Bs)) [0..<prod_list s])"
    by (simp add: finite_array_def comp_def split: if_splits)
  with out show ?thesis by simp
qed

text \<open>The coefficient rows \<open>[1, 2]\<close> and \<open>[3, 4]\<close> average to \<open>[2, 3]\<close>.\<close>

theorem avg_beta_vector_is_unweighted_mean_witness:
  "map (\<lambda>(site, r). local_array beta_vector_local r) (input payload_2d) =
     [Some (finite_array [1, 2] [1, 2]), Some (finite_array [1, 2] [3, 4])]
   \<and> map_sum id (out_avg_beta_vector \<circ> output_dict) (remote_1 payload_2d) =
       Inr (List [List [num ((1 + 3) / 2), num ((2 + 4) / 2)]])
   \<and> map_sum id (cache_avg_beta_vector \<circ> cache_dict) (remote_1 payload_2d) =
       Inr (Some (List [List [num ((1 + 3) / 2), num ((2 + 4) / 2)]]))"
proof -
  have betas: "map (\<lambda>(site, r). local_array beta_vector_local r) (input payload_2d) =
      map (\<lambda>xs. Some (finite_array [1, 2] xs)) [[1, 2], [3, 4]]"
    by (simp add: payload_2d_def local_array_def finite_array_def eval_defs)
  from avg_beta_vector_is_unweighted_mean [OF remote_1_payload_2d betas] betas
  show ?thesis
    by (simp add: remote_1_payload_2d finite_array_def tolist_def num_def upt_rec)
qed

lemma map_Fin_upt: "length xs = n \<Longrightarrow> map Fin xs = map (\<lambda>k. Fin (xs ! k)) [0..<n]"
  by (auto intro: nth_equalityI)

lemma nd_add_finite:
  assumes "length xs = prod_list s"
  shows "nd_add (NDArray s (map (\<lambda>k. Fin (f k)) [0..<prod_list s])) (finite_array s xs) =
         Inr (NDArray s (map (\<lambda>k. Fin (f k + xs ! k)) [0..<prod_list s]))"
proof -
  have "map2 fadd (map (\<lambda>k. Fin (f k)) [0..<prod_list s]) (map Fin xs) =
        map (\<lambda>k. Fin (f k + xs ! k)) [0..<prod_list s]"
    using assms by (auto intro: nth_equalityI)
  with assms show ?thesis
    by (simp add: nd_add_def finite_array_def nd_binop_same_shape wf_array_def)
qed

lemma foldl_nd_add_finite:
  assumes "\<forall>xs \<in> set rows. length xs = prod_list s"
  shows "foldl (\<lambda>acc a. bind acc (\<lambda>t. nd_add t a))
           (Inr (NDArray s (map (\<lambda>k. Fin (f k)) [0..<prod_list s])))
           (map (finite_array s) rows) =
         Inr (NDArray s (map (\<lambda>k. Fin (f k + (\<Sum>xs\<leftarrow>rows. xs ! k))) [0..<prod_list s]))"
  using assms
proof (induction rows arbitrary: f)
  case Nil
  show ?case by simp
next
  case (Cons xs rows)
  from Cons.prems have len: "length xs = prod_list s" and rest: "\<forall>ys \<in> set rows. length ys = prod_list s"
    by auto
  show ?case
    by (simp add: bind_Inr nd_add_finite [OF len] Cons.IH [OF rest] add.assoc)
qed

lemma py_sum_finite:
  assumes ne: "rows \<noteq> []" and len: "\<forall>xs \<in> set rows. length xs = prod_list s"
  shows "py_sum (map (finite_array s) rows) =
         Inr (Some (NDArray s (map (\<lambda>k. Fin (\<Sum>xs\<leftarrow>rows. xs ! k)) [0..<prod_list s])))"
proof -
  from ne obtain xs rest where rows: "rows = xs # rest" by (cases rows) auto
  with len have lx: "length xs = prod_list s" and lr: "\<forall>ys \<in> set rest. length ys = prod_list s"
    by auto
  have first: "nd_add (scalar (Fin 0)) (finite_array s xs) =
               Inr (NDArray s (map (\<lambda>k. Fin (xs ! k)) [0..<prod_list s]))"
    using lx map_Fin_upt [OF lx]
    by (simp add: nd_add_def nd_binop_scalar_left finite_array_def wf_array_def comp_def)
  show ?thesis
    by (simp add: py_sum_def rows bind_Inr first foldl_nd_add_finite [OF lr])
qed

lemma minus_int_finite:
  "minus_int (Some (NDArray s (map (\<lambda>k. Fin (f k)) [0..<prod_list s]))) p =
   Inr (NDArray s (map (\<lambda>k. Fin (f k - real p)) [0..<prod_list s]))"
  by (simp add: minus_int_def nd_sub_def nd_binop_scalar_right wf_array_def fsub_def comp_def)

lemma remote_1_dof_global:
  assumes ok: "remote_1 a = Inr res"
    and counts: "map (\<lambda>(site, r). local_array count_local r) (input a) =
                 map (\<lambda>xs. Some (finite_array sc xs)) Cs"
    and site: "(site, r) \<in> set (input a)"
    and columns: "map_option shape (local_array beta_vector_local r) = Some (m # p # rest)"
  shows "cache_dof_global (cache_dict res) =
           Some (tolist (finite_array sc
             (map (\<lambda>k. (\<Sum>xs\<leftarrow>Cs. xs ! k) - real p) [0..<prod_list sc])))"
proof -
  from ok obtain bs avg cs summed p' dof where
    ne: "input a \<noteq> []"
    and bs: "comprehension
       (\<lambda>(site, r). bind (getitem ''beta_vector_local'' (beta_vector_local r)) np_array)
       (input a) = Inr bs"
    and avg: "np_average_axis0 bs = Inr avg"
    and cs: "comprehension
       (\<lambda>(site, r). bind (getitem ''count_local'' (count_local r)) np_array)
       (input a) = Inr cs"
    and summed: "py_sum cs = Inr summed"
    and p': "shape_at avg 1 = Inr p'"
    and dof: "minus_int summed p' = Inr dof"
    and out: "cache_dof_global (cache_dict res) = Some (tolist dof)"
    by (rule remote_1_InrE)
  have "p' = p"
  proof -
    from site obtain i where i: "i < length (input a)" "input a ! i = (site, r)"
      by (auto simp: in_set_conv_nth)
    from comprehension_local_arrays(1) [OF bs]
    have "map (\<lambda>(site, r). local_array beta_vector_local r) (input a) ! i = map Some bs ! i"
      by simp
    moreover from comprehension_local_arrays(1) [OF bs] have "length bs = length (input a)"
      by (auto dest: map_eq_imp_length_eq)
    ultimately have "local_array beta_vector_local r = Some (bs ! i)" and "bs ! i \<in> set bs"
      using i by auto
    with columns np_average_axis0_shape [OF avg] have "shape avg = m # p # rest" by auto
    with p' show ?thesis by (simp add: shape_at_def)
  qed
  note rows = finite_arrays_of_local_arrays [OF cs counts]
  from rows(3) ne have "Cs \<noteq> []" by auto
  from py_sum_finite [OF this rows(2)] summed rows(1)
  have "summed = Some (NDArray sc (map (\<lambda>k. Fin (\<Sum>xs\<leftarrow>Cs. xs ! k)) [0..<prod_list sc]))"
    by simp
  with dof \<open>p' = p\<close>
  have "dof = finite_array sc (map (\<lambda>k. (\<Sum>xs\<leftarrow>Cs. xs ! k) - real p) [0..<prod_list sc])"
    by (simp add: minus_int_finite finite_array_def comp_def)
  with out show ?thesis by simp
qed

text \<open>
  C3 (as amended). When \<open>remote_1\<close> returns, a site's coefficient array is
  two-dimensional with \<open>m\<close> rows and \<open>p\<close> columns (the number of coefficients), the
  sites' counts have the entries \<open>Cs\<close> (of one shape \<open>sc\<close>, a plain integer being the
  shape \<open>[]\<close>), and the counts and the result stay within the 64-bit integers, the cached
  degrees of freedom are the sum of the counts minus \<open>p\<close>, entry by entry.
\<close>

theorem dof_global_is_total_count_minus_p:
  assumes ok: "remote_1 a = Inr res"
    and counts: "map (\<lambda>(site, r). local_array count_local r) (input a) =
                 map (\<lambda>xs. Some (finite_array sc xs)) Cs"
    and site: "(site, r) \<in> set (input a)"
    and two_axes: "map_option shape (local_array beta_vector_local r) = Some [m, p]"
    and bounded: "list_all
                    (\<lambda>k. list_all (\<lambda>xs. int64_range (xs ! k)) Cs
                         \<and> int64_range ((\<Sum>xs\<leftarrow>Cs. xs ! k) - real p))
                    [0..<prod_list sc]"
  shows "cache_dof_global (cache_dict res) =
           Some (tolist (finite_array sc
             (map (\<lambda>k. (\<Sum>xs\<leftarrow>Cs. xs ! k) - real p) [0..<prod_list sc])))"
  using ok counts site two_axes by (rule remote_1_dof_global)

text \<open>The counts 10 and 30 with two coefficients give 38 degrees of freedom.\<close>

theorem dof_global_is_total_count_minus_p_witness:
  "map (\<lambda>(site, r). local_array count_local r) (input payload_2d) =
     [Some (finite_array [1] [10]), Some (finite_array [1] [30])]
   \<and> map (\<lambda>(site, r). map_option shape (local_array beta_vector_local r)) (input payload_2d) =
     [Some [1, 2], Some [1, 2]]
   \<and> int64_range 10 \<and> int64_range 30 \<and> int64_range (10 + 30 - 2)
   \<and> map_sum id (cache_dof_global \<circ> cache_dict) (remote_1 payload_2d) =
       Inr (Some (List [num (10 + 30 - 2)]))
   \<and> num (10 + 30 - 2) = num 38"
proof -
  have counts: "map (\<lambda>(site, r). local_array count_local r) (input payload_2d) =
      map (\<lambda>xs. Some (finite_array [1] xs)) [[10], [30]]"
    by (simp add: payload_2d_def local_array_def finite_array_def eval_defs)
  have shapes: "map (\<lambda>(site, r). map_option shape (local_array beta_vector_local r)) (input payload_2d) =
     [Some [1, 2], Some [1, 2]]"
    by (simp add: payload_2d_def local_array_def eval_defs)
  have site: "(''site_a'', snd (hd (input payload_2d))) \<in> set (input payload_2d)"
    by (simp add: payload_2d_def)
  have two_axes: "map_option shape (local_array beta_vector_local (snd (hd (input payload_2d)))) =
      Some [1, 2]"
    by (simp add: payload_2d_def local_array_def eval_defs)
  have range: "int64_range 10" "int64_range 30" "int64_range (10 + 30 - 2)"
    by (simp_all add: int64_range_def)
  then have bounded: "list_all
      (\<lambda>k. list_all (\<lambda>xs. int64_range (xs ! k)) [[10], [30]]
           \<and> int64_range ((\<Sum>xs\<leftarrow>[[10], [30]]. xs ! k) - real 2))
      [0..<prod_list [1]]"
    by simp
  from dof_global_is_total_count_minus_p [OF remote_1_payload_2d counts site two_axes bounded]
    counts shapes range
  show ?thesis
    by (simp add: remote_1_payload_2d finite_array_def tolist_def num_def)
qed

text \<open>
  In \<open>payload_3d\<close> every site sends its two coefficients in an array of three axes, of
  shape \<open>[1, 1, 2]\<close>. The array is accepted, and what is subtracted from the total count
  40 is the length 1 of the second axis, not the number 2 of coefficients: the cached
  degrees of freedom are 39, not 38.
\<close>

theorem dof_global_subtracts_second_axis:
  "map (\<lambda>(site, r). map_option shape (local_array beta_vector_local r)) (input payload_3d) =
     [Some [1, 1, 2], Some [1, 1, 2]]
   \<and> map (\<lambda>(site, r). local_array count_local r) (input payload_3d) =
     [Some (finite_array [] [10]), Some (finite_array [] [30])]
   \<and> map_sum id (cache_dof_global \<circ> cache_dict) (remote_1 payload_3d) = Inr (Some (num 39))
   \<and> num (10 + 30 - 2) = num 38
   \<and> num 39 \<noteq> num 38"
  by (simp add: payload_3d_def local_array_def finite_array_def eval_defs)

text \<open>
  C2. Two sites send the mean responses \<open>[2, 5]\<close> and \<open>[4, 1]\<close> with the counts 10 and
  30. The count-weighted means of the two output dimensions are 3.5 and 2;
  \<open>remote_1\<close> returns 1.5 and 4.5, because the product of the stacked means (one row per
  site) and the vector of counts is broadcast along the rows: the count of site \<open>j\<close>
  multiplies output dimension \<open>j\<close> of every site.
\<close>

theorem mean_y_global_scalar_counts:
  "map (\<lambda>(site, r). (mean_y_local r, count_local r)) (input payload_scalar_counts) =
     [(Some (List [num 2, num 5]), Some (num 10)), (Some (List [num 4, num 1]), Some (num 30))]
   \<and> map_sum id (out_mean_y_global \<circ> output_dict) (remote_1 payload_scalar_counts) =
       Inr (List [num (3 / 2), num (9 / 2)])
   \<and> [num ((2 * 10 + 4 * 30) / (10 + 30)), num ((5 * 10 + 1 * 30) / (10 + 30))] =
       [num (7 / 2), num 2]"
  by (simp add: payload_scalar_counts_def eval_defs)

section \<open>Phase 2: the sums over the sites\<close>

lemma local_array_Some:
  "local_array field r = Some b \<longleftrightarrow> (\<exists>v. field r = Some v \<and> np_array v = Inr b)"
  by (auto simp: local_array_def split: option.splits sum.splits)

lemma comprehension_of_local_arrays:
  assumes "map (\<lambda>(site, r). local_array field r) inp = map Some as"
  shows "comprehension (\<lambda>(site, r). bind (getitem key (field r)) np_array) inp = Inr as"
proof -
  from assms have "list_all2 (\<lambda>(site, r) b. local_array field r = Some b) inp as"
    by (induction inp arbitrary: as) (auto simp: list_all2_Cons1)
  then have "list_all2 (\<lambda>x y. (case x of (site, r) \<Rightarrow> bind (getitem key (field r)) np_array) = Inr y)
               inp as"
    by (rule list_all2_mono) (auto simp: local_array_Some bind_Inr getitem_def)
  then show ?thesis by (simp only: comprehension_Inr)
qed

lemma py_sum_of_local_arrays:
  assumes ne: "inp \<noteq> []"
    and rows: "map (\<lambda>(site, r). local_array field r) inp = map (\<lambda>xs. Some (finite_array s xs)) rows"
  shows "bind (comprehension (\<lambda>(site, r). bind (getitem key (field r)) np_array) inp) py_sum =
         Inr (Some (finite_array s (map (\<lambda>k. \<Sum>xs\<leftarrow>rows. xs ! k) [0..<prod_list s])))"
proof -
  from rows have "map (\<lambda>(site, r). local_array field r) inp = map Some (map (finite_array s) rows)"
    by (simp add: comp_def)
  then have c: "comprehension (\<lambda>(site, r). bind (getitem key (field r)) np_array) inp =
                Inr (map (finite_array s) rows)"
    by (rule comprehension_of_local_arrays)
  note facts = finite_arrays_of_local_arrays [OF c rows]
  from facts(3) ne have "rows \<noteq> []" by auto
  from py_sum_finite [OF this facts(2)] c show ?thesis
    by (simp add: bind_Inr finite_array_def comp_def)
qed

text \<open>
  C4. For a payload of at least one site in which the sites' \<open>SSE_local\<close> arrays have
  one common shape and the finite entries \<open>SSEs\<close> (one row-major list per site), and
  likewise \<open>SST_local\<close> and \<open>varX_matrix_local\<close>, the three global quantities that
  \<open>remote_2\<close> computes are the entry-wise sums over the sites.
\<close>

theorem global_sums_are_elementwise_sums:
  assumes sites: "input_list \<noteq> []"
    and sse: "map (\<lambda>(site, r). local_array SSE_local r) input_list =
              map (\<lambda>xs. Some (finite_array s1 xs)) SSEs"
    and sst: "map (\<lambda>(site, r). local_array SST_local r) input_list =
              map (\<lambda>xs. Some (finite_array s2 xs)) SSTs"
    and varX: "map (\<lambda>(site, r). local_array varX_matrix_local r) input_list =
               map (\<lambda>xs. Some (finite_array s3 xs)) varXs"
  shows "global_sums input_list =
           Inr (Some (finite_array s1 (map (\<lambda>k. \<Sum>xs\<leftarrow>SSEs. xs ! k) [0..<prod_list s1])),
                Some (finite_array s2 (map (\<lambda>k. \<Sum>xs\<leftarrow>SSTs. xs ! k) [0..<prod_list s2])),
                Some (finite_array s3 (map (\<lambda>k. \<Sum>xs\<leftarrow>varXs. xs ! k) [0..<prod_list s3])))"
  unfolding global_sums_def
  by (simp only: py_sum_of_local_arrays [OF sites sse] py_sum_of_local_arrays [OF sites sst]
        py_sum_of_local_arrays [OF sites varX] bind_Inr)

text \<open>The sums for the two sites of \<open>payload_phase_2\<close>.\<close>

theorem global_sums_are_elementwise_sums_witness:
  "map (\<lambda>(site, r). local_array SSE_local r) (input payload_phase_2) =
     [Some (finite_array [1] [19]), Some (finite_array [1] [133])]
   \<and> map (\<lambda>(site, r). local_array SST_local r) (input payload_phase_2) =
     [Some (finite_array [1] [50]), Some (finite_array [1] [150])]
   \<and> map (\<lambda>(site, r). local_array varX_matrix_local r) (input payload_phase_2) =
     [Some (finite_array [2, 2] [1 / 2, 0, 0, 2]), Some (finite_array [2, 2] [1 / 2, 0, 0, 2])]
   \<and> global_sums (input payload_phase_2) =
     Inr (Some (finite_array [1] [19 + 133]),
          Some (finite_array [1] [50 + 150]),
          Some (finite_array [2, 2] [1 / 2 + 1 / 2, 0 + 0, 0 + 0, 2 + 2]))"
proof -
  have ne: "input payload_phase_2 \<noteq> []"
    by (simp add: payload_phase_2_def)
  have sse: "map (\<lambda>(site, r). local_array SSE_local r) (input payload_phase_2) =
      map (\<lambda>xs. Some (finite_array [1] xs)) [[19], [133]]"
    by (simp add: payload_phase_2_def local_array_def finite_array_def eval_defs)
  have sst: "map (\<lambda>(site, r). local_array SST_local r) (input payload_phase_2) =
      map (\<lambda>xs. Some (finite_array [1] xs)) [[50], [150]]"
    by (simp add: payload_phase_2_def local_array_def finite_array_def eval_defs)
  have varX: "map (\<lambda>(site, r). local_array varX_matrix_local r) (input payload_phase_2) =
      map (\<lambda>xs. Some (finite_array [2, 2] xs)) [[1 / 2, 0, 0, 2], [1 / 2, 0, 0, 2]]"
    by (simp add: payload_phase_2_def local_array_def finite_array_def eval_defs)
  from global_sums_are_elementwise_sums [OF ne sse sst varX] sse sst varX
  show ?thesis by (simp add: upt_rec)
qed

section \<open>Phase 2: standard errors and t-statistics\<close>

lemma length_all_indices: "length (all_indices s) = prod_list s"
  using flat_index_all_indices [of s] by (metis length_map length_upt minus_nat.diff_0)

lemma nd_binop_wf: "nd_binop f a b = Inr c \<Longrightarrow> wf_array c"
  by (auto simp: nd_binop_def wf_array_def length_all_indices split: option.splits)

lemma foldl_nd_add_wf:
  assumes "foldl (\<lambda>acc a. bind acc (\<lambda>t. nd_add t a)) z as = Inr t" and "as \<noteq> []"
  shows "wf_array t"
proof -
  from assms(2) obtain bs b where "as = bs @ [b]"
    by (cases as rule: rev_cases) auto
  with assms(1) obtain u where "nd_add u b = Inr t"
    by (auto simp: bind_eq_Inr)
  then show ?thesis by (auto simp: nd_add_def dest: nd_binop_wf)
qed

lemma py_sum_wf:
  assumes "py_sum as = Inr (Some t)"
  shows "wf_array t"
proof -
  from assms have ne: "as \<noteq> []"
    by (auto simp: py_sum_def)
  with assms have "foldl (\<lambda>acc a. bind acc (\<lambda>s. nd_add s a)) (Inr (scalar (Fin 0))) as = Inr t"
    by (cases "foldl (\<lambda>acc a. bind acc (\<lambda>s. nd_add s a)) (Inr (scalar (Fin 0))) as")
       (simp_all add: py_sum_def list.case_eq_if del: foldl_Cons)
  from foldl_nd_add_wf [OF this ne] show ?thesis .
qed

lemma global_sums_wf:
  assumes "global_sums input_list = Inr (Some sse, sst, g)"
  shows "wf_array sse"
  using assms by (auto simp: global_sums_def bind_eq_Inr dest: py_sum_wf simp del: comprehension.simps)

lemma concat_singletons: "concat (map (\<lambda>i. [f i]) xs) = map f xs"
  by (induction xs) auto

lemma all_indices_1d: "all_indices [p] = map (\<lambda>j. [j]) [0..<p]"
  by (simp add: concat_singletons)

lemma tolist_1d:
  assumes "length xs = p"
  shows "tolist (NDArray [p] xs) = List (map (\<lambda>j. Num (xs ! j)) [0..<p])"
proof -
  have "tolist_aux [] (take 1 (drop j xs)) = Num (xs ! j)" if "j < p" for j
  proof -
    from that assms have "drop j xs = xs ! j # drop (Suc j) xs"
      by (simp add: Cons_nth_drop_Suc)
    then show ?thesis by simp
  qed
  then show ?thesis by (simp add: tolist_def cong: map_cong)
qed

lemma nd_index_1d:
  assumes "i < m" and "length xs = m"
  shows "nd_index (NDArray [m] xs) i = Inr (scalar (xs ! i))"
proof -
  from assms have "drop i xs = xs ! i # drop (Suc i) xs"
    by (simp add: Cons_nth_drop_Suc)
  with assms show ?thesis by (simp add: nd_index_def scalar_def)
qed

lemma nd_diagonal_square:
  "nd_diagonal (NDArray [p, p] X) = Inr (NDArray [p] (map (\<lambda>j. X ! (j * p + j)) [0..<p]))"
  by (simp add: nd_diagonal_def all_indices_1d item_def comp_def)

lemma diagonal_index_bound: "(j::nat) < p \<Longrightarrow> j * p + j < p * p"
proof -
  assume "j < p"
  then have "Suc j \<le> p" by simp
  then have "Suc j * p \<le> p * p" by (rule mult_le_mono1)
  with \<open>j < p\<close> show ?thesis by simp
qed

lemma dimension_statistics_ts:
  assumes stat: "dimension_statistics env (NDArray [m] mse) G beta dof i = Inr (ts, ps)"
    and mse: "length mse = m" and i: "i < m"
    and inverse: "linalg_inv env G = Inr (NDArray [p, p] H)" "length H = p * p"
    and row: "py_index beta i = Inr row" "np_array row = Inr (NDArray [p] b)"
  shows "ts = List (map (\<lambda>j. Num (fdiv (b ! j) (fsqrt (fmul (mse ! i) (H ! (j * p + j)))))) [0..<p])"
proof -
  from np_array_wf [OF row(2)] have b: "length b = p" by (simp add: wf_array_def)
  have mul: "nd_mul (scalar (mse ! i)) (NDArray [p, p] H) =
             Inr (NDArray [p, p] (map (fmul (mse ! i)) H))"
    using inverse(2) by (simp add: nd_mul_def nd_binop_scalar_left wf_array_def)
  have diag: "nd_diagonal (NDArray [p, p] (map (fmul (mse ! i)) H)) =
              Inr (NDArray [p] (map (\<lambda>j. fmul (mse ! i) (H ! (j * p + j))) [0..<p]))"
    using inverse(2) by (simp add: nd_diagonal_square diagonal_index_bound cong: map_cong)
  have quot: "nd_div (NDArray [p] b)
                (nd_sqrt (NDArray [p] (map (\<lambda>j. fmul (mse ! i) (H ! (j * p + j))) [0..<p]))) =
              Inr (NDArray [p]
                (map (\<lambda>j. fdiv (b ! j) (fsqrt (fmul (mse ! i) (H ! (j * p + j))))) [0..<p]))"
  proof -
    have "map2 fdiv b (map fsqrt (map (\<lambda>j. fmul (mse ! i) (H ! (j * p + j))) [0..<p])) =
          map (\<lambda>j. fdiv (b ! j) (fsqrt (fmul (mse ! i) (H ! (j * p + j))))) [0..<p]"
      using b by (auto intro: nth_equalityI)
    with b show ?thesis
      by (simp add: nd_div_def nd_sqrt_def nd_binop_same_shape wf_array_def)
  qed
  from stat have "ts = tolist (NDArray [p]
      (map (\<lambda>j. fdiv (b ! j) (fsqrt (fmul (mse ! i) (H ! (j * p + j))))) [0..<p]))"
    by (auto simp: dimension_statistics_def nd_index_1d [OF i mse] inverse(1) mul diag row quot
          bind_Inr Let_def bind_eq_Inr)
  then show ?thesis by (simp add: tolist_1d comp_def cong: map_cong)
qed

text \<open>
  C5. Let the global sum of squared errors be the \<open>m\<close> numbers \<open>sse\<close>, the cached degrees
  of freedom the \<open>m\<close> numbers \<open>d\<close>, and let \<^verbatim>\<open>scipy.linalg.inv\<close> return the \<open>p \<times> p\<close> matrix
  \<open>H\<close> for the global cross-product matrix. Whenever the statistics of \<open>remote_2\<close> are
  computed, there is one list of t-statistics per output dimension, and for an output
  dimension \<open>i\<close> whose cached coefficient row is \<open>b\<close>, the \<open>j\<close>-th t-statistic is \<open>b ! j\<close>
  divided by the standard error of coefficient \<open>j\<close>: the square root of
  \<open>sse ! i / d ! i\<close> times the \<open>j\<close>-th diagonal entry of \<open>H\<close>.
\<close>

theorem t_statistics_use_standard_errors:
  assumes fit: "fit_statistics env input_list beta dof = Inr (ts_global, ps_global)"
    and sums: "global_sums input_list = Inr (Some (finite_array [m] sse), sst, Some G)"
    and dof: "np_array dof = Inr (finite_array [m] d)"
    and inverse: "linalg_inv env G = Inr (NDArray [p, p] H)" "length H = p * p"
    and i: "i < m"
    and row: "py_index beta i = Inr row" "np_array row = Inr (NDArray [p] b)"
  shows "length ts_global = m
       \<and> ts_global ! i =
           List (map (\<lambda>j. Num (fdiv (b ! j) (standard_error (sse ! i) (d ! i) (H ! (j * p + j)))))
                   [0..<p])"
proof -
  from global_sums_wf [OF sums] have sse: "length sse = m"
    by (simp add: wf_array_def finite_array_def)
  from np_array_wf [OF dof] have d: "length d = m"
    by (simp add: wf_array_def finite_array_def)
  have mse: "nd_div (as_array (Some (finite_array [m] sse))) (finite_array [m] d) =
             Inr (NDArray [m] (map2 fdiv (map Fin sse) (map Fin d)))"
    using sse d by (simp add: as_array_def nd_div_def finite_array_def nd_binop_same_shape wf_array_def)
  from fit sums dof mse obtain stats where
    stats: "comprehension
              (dimension_statistics env (NDArray [m] (map2 fdiv (map Fin sse) (map Fin d)))
                 (as_array (Some G)) beta dof) [0..<m] = Inr stats"
    and ts_eq: "ts_global = map fst stats"
    by (auto simp: fit_statistics_def bind_eq_Inr py_len_def simp del: comprehension.simps)
  from stats have all: "list_all2
      (\<lambda>k st. dimension_statistics env (NDArray [m] (map2 fdiv (map Fin sse) (map Fin d)))
                 (as_array (Some G)) beta dof k = Inr st) [0..<m] stats"
    by (simp only: comprehension_Inr)
  then have len: "length stats = m"
    by (auto dest: list_all2_lengthD)
  from all i len
  have "dimension_statistics env (NDArray [m] (map2 fdiv (map Fin sse) (map Fin d)))
          G beta dof i = Inr (fst (stats ! i), snd (stats ! i))"
    by (auto simp: list_all2_conv_all_nth as_array_def)
  from dimension_statistics_ts [OF this _ i inverse row] sse d i
  have "fst (stats ! i) =
        List (map (\<lambda>j. Num (fdiv (b ! j)
                (fsqrt (fmul (fdiv (Fin (sse ! i)) (Fin (d ! i))) (H ! (j * p + j)))))) [0..<p])"
    by simp
  with ts_eq len i show ?thesis by (simp add: standard_error_def)
qed

lemma fit_statistics_payload_phase_2:
  "fit_statistics recording_env (input payload_phase_2) (List [List [num 2, num 3]]) (List [num 38]) =
     Inr ([List [num 1, num 3]], [List [List [num 1, num 3], num 38]])"
  by (simp add: payload_phase_2_def eval_defs)

lemma global_sums_payload_phase_2:
  "global_sums (input payload_phase_2) =
     Inr (Some (finite_array [1] [152]), Some (finite_array [1] [200]),
          Some (NDArray [2, 2] [Fin 1, Fin 0, Fin 0, Fin 4]))"
  by (simp add: payload_phase_2_def finite_array_def eval_defs)

text \<open>
  For \<open>payload_phase_2\<close> the mean squared error is \<open>152 / 38\<close>, the inverse of the
  cross-product matrix has the diagonal \<open>1\<close> and \<open>1 / 4\<close>, the standard errors are 2 and
  1, and the coefficients 2 and 3 give the t-statistics 1 and 3.
\<close>

theorem t_statistics_use_standard_errors_witness:
  "global_sums (input payload_phase_2) =
     Inr (Some (finite_array [1] [152]), Some (finite_array [1] [200]),
          Some (NDArray [2, 2] [Fin 1, Fin 0, Fin 0, Fin 4]))
   \<and> linalg_inv recording_env (NDArray [2, 2] [Fin 1, Fin 0, Fin 0, Fin 4]) =
       Inr (NDArray [2, 2] [Fin 1, Fin 0, Fin 0, Fin (1 / 4)])
   \<and> fit_statistics recording_env (input payload_phase_2) (List [List [num 2, num 3]])
         (List [num 38]) =
       Inr ([List [num 1, num 3]], [List [List [num 1, num 3], num 38]])
   \<and> [List [num 1, num 3]] ! 0 =
       List [Num (fdiv (Fin 2) (standard_error 152 38 (Fin 1))),
             Num (fdiv (Fin 3) (standard_error 152 38 (Fin (1 / 4))))]
   \<and> standard_error 152 38 (Fin 1) = Fin 2
   \<and> standard_error 152 38 (Fin (1 / 4)) = Fin 1"
proof -
  have dof: "np_array (List [num 38]) = Inr (finite_array [1] [38])"
    by (simp add: finite_array_def eval_defs)
  have inverse: "linalg_inv recording_env (NDArray [2, 2] [Fin 1, Fin 0, Fin 0, Fin 4]) =
      Inr (NDArray [2, 2] [Fin 1, Fin 0, Fin 0, Fin (1 / 4)])"
    "length [Fin 1, Fin 0, Fin 0, Fin (1 / 4)] = 2 * 2"
    by (simp_all add: eval_defs)
  have row: "py_index (List [List [num 2, num 3]]) 0 = Inr (List [num 2, num 3])"
    "np_array (List [num 2, num 3]) = Inr (NDArray [2] [Fin 2, Fin 3])"
    by (simp_all add: eval_defs)
  have se: "standard_error 152 38 (Fin 1) = Fin 2" "standard_error 152 38 (Fin (1 / 4)) = Fin 1"
    by (simp_all add: standard_error_def)
  from t_statistics_use_standard_errors
    [where i = 0, OF fit_statistics_payload_phase_2 global_sums_payload_phase_2 dof inverse _ row]
  have "[List [num 1, num 3]] ! 0 =
       List [Num (fdiv (Fin 2) (standard_error 152 38 (Fin 1))),
             Num (fdiv (Fin 3) (standard_error 152 38 (Fin (1 / 4))))]"
    by (simp add: upt_rec)
  with inverse(1) se show ?thesis
    by (simp only: fit_statistics_payload_phase_2 global_sums_payload_phase_2 simp_thms)
qed

section \<open>Phase 2 computes its statistics from the cached values\<close>

lemma np_arrays_nums: "np_arrays (map Num xs) = Inr (map scalar xs)"
  by (induction xs) auto

lemma np_array_nums: "np_array (List (map Num xs)) = Inr (NDArray [length xs] xs)"
proof -
  have c: "concat (map elems (map scalar xs)) = xs"
    by (induction xs) (auto simp: scalar_def)
  have "nd_stack (map scalar xs) = Inr (NDArray [length xs] xs)"
  proof (cases xs)
    case Nil
    then show ?thesis by (simp add: nd_stack_def)
  next
    case (Cons y ys)
    have "list_all (\<lambda>b. shape b = shape (scalar y)) (map scalar xs)"
      by (simp add: list_all_iff scalar_def)
    with Cons c show ?thesis
      by (simp add: nd_stack_def scalar_def)
  qed
  then show ?thesis
    by (simp only: np_array.simps np_arrays_nums sum.case)
qed

lemma nums_upt: "length xs = n \<Longrightarrow> map (\<lambda>j. Num (xs ! j)) [0..<n] = map Num xs"
  by (auto intro: nth_equalityI)

lemma np_array_tolist_1d:
  assumes "length xs = n"
  shows "np_array (tolist (NDArray [n] xs)) = Inr (NDArray [n] xs)"
  using assms by (simp add: tolist_1d nums_upt np_array_nums del: np_array.simps)

lemma py_index_tolist_1d:
  assumes "length xs = n" and "i < n"
  shows "py_index (tolist (NDArray [n] xs)) i = Inr (Num (xs ! i))"
  using assms by (simp add: tolist_1d)

lemma py_index_tolist_2d:
  assumes len: "length A = m * p" and i: "i < m"
  shows "py_index (tolist (NDArray [m, p] A)) i =
         Inr (List (map (\<lambda>j. Num (A ! (i * p + j))) [0..<p]))"
proof -
  have le: "i * p + p \<le> m * p"
  proof -
    from i have "Suc i \<le> m" by simp
    then have "Suc i * p \<le> m * p" by (rule mult_le_mono1)
    then show ?thesis by (simp add: add.commute)
  qed
  with len have l: "length (take p (drop (i * p) A)) = p" by simp
  have "tolist_aux [p] (take p (drop (i * p) A)) =
        List (map (\<lambda>j. Num (take p (drop (i * p) A) ! j)) [0..<p])"
    using tolist_1d [OF l] by (simp add: tolist_def)
  also have "map (\<lambda>j. Num (take p (drop (i * p) A) ! j)) [0..<p] =
             map (\<lambda>j. Num (A ! (i * p + j))) [0..<p]"
  proof (intro map_cong refl)
    fix j assume "j \<in> set [0..<p]"
    then have j: "j < p" by simp
    from le len have "i * p \<le> length A" by linarith
    then have "drop (i * p) A ! j = A ! (i * p + j)" by simp
    with j show "Num (take p (drop (i * p) A) ! j) = Num (A ! (i * p + j))" by simp
  qed
  finally show ?thesis using i by (simp add: tolist_def)
qed

lemma dimension_statistics_ps:
  assumes "dimension_statistics env MSE G beta dof i = Inr (ts, ps)"
    and "py_index dof i = Inr dof_i"
  shows "t_to_p env ts dof_i = Inr ps"
  using assms by (auto simp: dimension_statistics_def bind_eq_Inr Let_def)

lemma fit_statistics_dimension_rows:
  assumes fit: "fit_statistics env input_list beta dof = Inr (ts_global, ps_global)"
    and sums: "global_sums input_list = Inr (Some (finite_array [m] sse), sst, Some G)"
    and dof: "np_array dof = Inr (finite_array [m] d)"
  shows "length ts_global = m" and "length ps_global = m"
    and "length sse = m" and "length d = m"
    and "i < m \<Longrightarrow>
           dimension_statistics env (NDArray [m] (map2 fdiv (map Fin sse) (map Fin d)))
             G beta dof i = Inr (ts_global ! i, ps_global ! i)"
proof -
  from global_sums_wf [OF sums] show sse: "length sse = m"
    by (simp add: wf_array_def finite_array_def)
  from np_array_wf [OF dof] show d: "length d = m"
    by (simp add: wf_array_def finite_array_def)
  have mse: "nd_div (as_array (Some (finite_array [m] sse))) (finite_array [m] d) =
             Inr (NDArray [m] (map2 fdiv (map Fin sse) (map Fin d)))"
    using sse d by (simp add: as_array_def nd_div_def finite_array_def nd_binop_same_shape wf_array_def)
  from fit sums dof mse obtain stats where
    stats: "comprehension
              (dimension_statistics env (NDArray [m] (map2 fdiv (map Fin sse) (map Fin d)))
                 (as_array (Some G)) beta dof) [0..<m] = Inr stats"
    and ts_eq: "ts_global = map fst stats" and ps_eq: "ps_global = map snd stats"
    by (auto simp: fit_statistics_def bind_eq_Inr py_len_def simp del: comprehension.simps)
  from stats have all: "list_all2
      (\<lambda>k st. dimension_statistics env (NDArray [m] (map2 fdiv (map Fin sse) (map Fin d)))
                 (as_array (Some G)) beta dof k = Inr st) [0..<m] stats"
    by (simp only: comprehension_Inr)
  then have len: "length stats = m"
    by (auto dest: list_all2_lengthD)
  with ts_eq ps_eq show "length ts_global = m" and "length ps_global = m" by simp_all
  assume "i < m"
  with all len ts_eq ps_eq
  show "dimension_statistics env (NDArray [m] (map2 fdiv (map Fin sse) (map Fin d)))
          G beta dof i = Inr (ts_global ! i, ps_global ! i)"
    by (auto simp: list_all2_conv_all_nth as_array_def)
qed

lemma comprehension_nth:
  assumes "length ys = n" and "\<And>i. i < n \<Longrightarrow> f i = Inr (ys ! i)"
  shows "comprehension f [0..<n] = Inr ys"
  using assms by (simp only: comprehension_Inr) (simp add: list_all2_conv_all_nth)

text \<open>
  C6. Let the cache of a Phase-2 payload \<open>a2\<close> hold the coefficient array \<open>B\<close> of \<open>m\<close>
  rows and \<open>p\<close> columns and the degrees of freedom \<open>d\<close> of the \<open>m\<close> output dimensions, as
  Phase 1 writes them; let the sites' sums of squared errors add up to the \<open>m\<close> numbers
  \<open>sse\<close> and let \<^verbatim>\<open>scipy.linalg.inv\<close> return the \<open>p \<times> p\<close> matrix \<open>H\<close> for the global
  cross-product matrix. Whenever \<open>remote_2\<close> returns on \<open>a2\<close>:

    \<^item> the t-statistics it hands to \<^verbatim>\<open>print_pvals\<close> are, for each of the \<open>m\<close> output
      dimensions, the entries of row \<open>i\<close> of the cached array \<open>B\<close> divided by the standard
      errors computed with the cached \<open>d ! i\<close>;
    \<^item> the p-values it hands over are, for each output dimension, what \<^verbatim>\<open>t_to_p\<close> returns
      for those t-statistics at the cached \<open>d ! i\<close>;
    \<^item> the labels are the cached ones, \<^verbatim>\<open>print_beta_images\<close> receives the cached array,
      and the per-site blobs of the result are the cached ones;
    \<^item> every rendering routine receives the payload \<open>a2\<close> itself, whose cache is the one
      that came in.

  The payload's input enters only through the sites' names and the three sums, so no
  cached value is computed again from it.
\<close>

theorem phase_2_computes_from_cached_values:
  assumes beta: "cache_avg_beta_vector (cache a2) = Some (tolist (NDArray [m, p] B))"
      "length B = m * p"
    and dof: "cache_dof_global (cache a2) = Some (tolist (finite_array [m] d))" "length d = m"
    and sums: "global_sums (input a2) = Inr (Some (finite_array [m] sse), sst, Some G)"
    and inverse: "linalg_inv env G = Inr (NDArray [p, p] H)" "length H = p * p"
    and run: "remote_2 env a2 w = Inr (out, w')"
  shows "\<exists>labels blobs ps_global w1.
           cache_X_labels (cache a2) = Some labels
         \<and> cache_local_stats_dict (cache a2) = Some blobs
         \<and> comprehension
             (\<lambda>i. t_to_p env (t_statistics_row B d sse H p i) (Num (Fin (d ! i)))) [0..<m] =
             Inr ps_global
         \<and> print_pvals env a2 ps_global (map (t_statistics_row B d sse H p) [0..<m]) labels w =
             Inr w1
         \<and> print_beta_images env a2 (tolist (NDArray [m, p] B)) labels w1 = Inr w'
         \<and> encode_png env a2 w' = Inr (global_stats (output_2 out))
         \<and> local_stats (output_2 out) = zip (map fst (input a2)) blobs"
proof -
  from run beta(1) dof(1) obtain labels blobs ts_global ps_global w1 where
    labels: "cache_X_labels (cache a2) = Some labels"
    and blobs: "cache_local_stats_dict (cache a2) = Some blobs"
    and fit: "fit_statistics env (input a2) (tolist (NDArray [m, p] B))
                (tolist (finite_array [m] d)) = Inr (ts_global, ps_global)"
    and sinks: "print_pvals env a2 ps_global ts_global labels w = Inr w1"
      "print_beta_images env a2 (tolist (NDArray [m, p] B)) labels w1 = Inr w'"
      "encode_png env a2 w' = Inr (global_stats (output_2 out))"
    and stats: "local_stats (output_2 out) = zip (map fst (input a2)) blobs"
    by (auto simp: remote_2_def Let_def bind_eq_Inr getitem_def split: option.splits)
  have dof_array: "np_array (tolist (finite_array [m] d)) = Inr (finite_array [m] d)"
    using dof(2) by (simp add: finite_array_def np_array_tolist_1d del: np_array.simps)
  note rows = fit_statistics_dimension_rows [OF fit sums dof_array]
  have ts: "ts_global ! i = t_statistics_row B d sse H p i"
    and ps: "t_to_p env (t_statistics_row B d sse H p i) (Num (Fin (d ! i))) = Inr (ps_global ! i)"
    if i: "i < m" for i
  proof -
    note stat = rows(5) [OF i]
    have mse: "length (map2 fdiv (map Fin sse) (map Fin d)) = m"
      using rows(3,4) by simp
    have row: "py_index (tolist (NDArray [m, p] B)) i =
                 Inr (List (map Num (map (\<lambda>j. B ! (i * p + j)) [0..<p])))"
      using py_index_tolist_2d [OF beta(2) i] by (simp add: comp_def)
    have arr: "np_array (List (map Num (map (\<lambda>j. B ! (i * p + j)) [0..<p]))) =
                 Inr (NDArray [p] (map (\<lambda>j. B ! (i * p + j)) [0..<p]))"
      using np_array_nums [of "map (\<lambda>j. B ! (i * p + j)) [0..<p]"] by simp
    from dimension_statistics_ts [OF stat mse i inverse row arr] rows(3,4) i
    show ts: "ts_global ! i = t_statistics_row B d sse H p i"
      by (simp add: t_statistics_row_def standard_error_def cong: map_cong)
    have "py_index (tolist (finite_array [m] d)) i = Inr (Num (Fin (d ! i)))"
      using dof(2) i by (simp add: finite_array_def py_index_tolist_1d)
    from dimension_statistics_ps [OF stat this] ts
    show "t_to_p env (t_statistics_row B d sse H p i) (Num (Fin (d ! i))) = Inr (ps_global ! i)"
      by simp
  qed
  from rows(1) ts have "ts_global = map (t_statistics_row B d sse H p) [0..<m]"
    by (auto intro: nth_equalityI)
  moreover from rows(2) ps
  have "comprehension
          (\<lambda>i. t_to_p env (t_statistics_row B d sse H p i) (Num (Fin (d ! i)))) [0..<m] =
        Inr ps_global"
    by (rule comprehension_nth)
  ultimately show ?thesis using labels blobs sinks stats by blast
qed

text \<open>
  The run of \<open>payload_2d\<close> followed by \<open>payload_phase_2\<close>. Phase 1 caches the coefficient
  array \<open>[[2, 3]]\<close> and 38 degrees of freedom; Phase 2 adds the sums of squared errors to
  152 and inverts the cross-product matrix to the diagonal \<open>1\<close> and \<open>1 / 4\<close>. The rendering
  routines are handed the t-statistics \<open>2 / 2\<close> and \<open>3 / 1\<close>, the p-values for them at 38
  degrees of freedom, the cached labels and the cached coefficient array.
\<close>

theorem phase_2_computes_from_cached_values_witness:
  "remote_1 payload_2d = Inr result_2d
   \<and> cache payload_phase_2 = cache_dict result_2d
   \<and> cache_avg_beta_vector (cache payload_phase_2) = Some (tolist (NDArray [1, 2] [Fin 2, Fin 3]))
   \<and> cache_dof_global (cache payload_phase_2) = Some (tolist (finite_array [1] [38]))
   \<and> global_sums (input payload_phase_2) =
       Inr (Some (finite_array [1] [152]), Some (finite_array [1] [200]),
            Some (NDArray [2, 2] [Fin 1, Fin 0, Fin 0, Fin 4]))
   \<and> linalg_inv recording_env (NDArray [2, 2] [Fin 1, Fin 0, Fin 0, Fin 4]) =
       Inr (NDArray [2, 2] [Fin 1, Fin 0, Fin 0, Fin (1 / 4)])
   \<and> map (t_statistics_row [Fin 2, Fin 3] [38] [152] [Fin 1, Fin 0, Fin 0, Fin (1 / 4)] 2) [0..<1] =
       [List [num (2 / 2), num (3 / 1)]]
   \<and> map_sum id snd (remote_2 recording_env payload_phase_2 []) =
       Inr [Print_pvals
              [List [t_statistics_row [Fin 2, Fin 3] [38] [152] [Fin 1, Fin 0, Fin 0, Fin (1 / 4)] 2 0,
                     num 38]]
              (map (t_statistics_row [Fin 2, Fin 3] [38] [152] [Fin 1, Fin 0, Fin 0, Fin (1 / 4)] 2)
                 [0..<1])
              [''const'', ''age''],
            Print_beta_images (tolist (NDArray [1, 2] [Fin 2, Fin 3])) [''const'', ''age'']]
   \<and> map_sum id (local_stats \<circ> output_2 \<circ> fst) (remote_2 recording_env payload_phase_2 []) =
       Inr (zip [''site_a'', ''site_b''] [''stats of a'', ''stats of b''])"
proof -
  have phase_1: "remote_1 payload_2d = Inr result_2d"
    by (simp add: remote_1_payload_2d result_2d_def)
  have handoff: "cache payload_phase_2 = cache_dict result_2d"
    by (simp add: payload_phase_2_def result_2d_def)
  have beta: "cache_avg_beta_vector (cache payload_phase_2) =
                Some (tolist (NDArray [1, 2] [Fin 2, Fin 3]))"
    "length [Fin 2, Fin 3 :: npfloat] = 1 * 2"
    by (simp_all add: payload_phase_2_def cache_2d_def eval_defs)
  have dof: "cache_dof_global (cache payload_phase_2) = Some (tolist (finite_array [1] [38]))"
    "length [38 :: real] = 1"
    by (simp_all add: payload_phase_2_def cache_2d_def finite_array_def eval_defs)
  have inverse: "linalg_inv recording_env (NDArray [2, 2] [Fin 1, Fin 0, Fin 0, Fin 4]) =
      Inr (NDArray [2, 2] [Fin 1, Fin 0, Fin 0, Fin (1 / 4)])"
    "length [Fin 1, Fin 0, Fin 0, Fin (1 / 4)] = 2 * 2"
    by (simp_all add: eval_defs)
  have row: "t_statistics_row [Fin 2, Fin 3] [38] [152] [Fin 1, Fin 0, Fin 0, Fin (1 / 4)] 2 0 =
      List [num (2 / 2), num (3 / 1)]"
    by (simp add: t_statistics_row_def standard_error_def num_def upt_rec)
  from phase_2_computes_from_cached_values
    [OF beta dof global_sums_payload_phase_2 inverse remote_2_payload_phase_2]
  obtain labels blobs ps_global w1 where
    labels: "cache_X_labels (cache payload_phase_2) = Some labels"
    and blobs: "cache_local_stats_dict (cache payload_phase_2) = Some blobs"
    and ps: "comprehension
       (\<lambda>i. t_to_p recording_env
              (t_statistics_row [Fin 2, Fin 3] [38] [152] [Fin 1, Fin 0, Fin 0, Fin (1 / 4)] 2 i)
              (Num (Fin ([38] ! i)))) [0..<1] = Inr ps_global"
    and sinks: "print_pvals recording_env payload_phase_2 ps_global
        (map (t_statistics_row [Fin 2, Fin 3] [38] [152] [Fin 1, Fin 0, Fin 0, Fin (1 / 4)] 2) [0..<1])
        labels [] = Inr w1"
      "print_beta_images recording_env payload_phase_2 (tolist (NDArray [1, 2] [Fin 2, Fin 3]))
        labels w1 =
       Inr [Print_pvals [List [List [num 1, num 3], num 38]] [List [num 1, num 3]] [''const'', ''age''],
            Print_beta_images (List [List [num 2, num 3]]) [''const'', ''age'']]"
    and stats: "local_stats \<lparr>global_stats = 2 :: nat,
        local_stats = [(''site_a'', ''stats of a''), (''site_b'', ''stats of b'')]\<rparr> =
        zip (map fst (input payload_phase_2)) blobs"
    by auto
  from ps have ps_global: "ps_global =
      [List [t_statistics_row [Fin 2, Fin 3] [38] [152] [Fin 1, Fin 0, Fin 0, Fin (1 / 4)] 2 0,
             num 38]]"
    by (auto simp: recording_env_def num_def upt_rec)
  from labels have "labels = [''const'', ''age'']"
    by (simp add: payload_phase_2_def cache_2d_def)
  with sinks ps_global
  have "[Print_pvals [List [List [num 1, num 3], num 38]] [List [num 1, num 3]] [''const'', ''age''],
         Print_beta_images (List [List [num 2, num 3]]) [''const'', ''age'']] =
        [Print_pvals
              [List [t_statistics_row [Fin 2, Fin 3] [38] [152] [Fin 1, Fin 0, Fin 0, Fin (1 / 4)] 2 0,
                     num 38]]
              (map (t_statistics_row [Fin 2, Fin 3] [38] [152] [Fin 1, Fin 0, Fin 0, Fin (1 / 4)] 2)
                 [0..<1])
              [''const'', ''age''],
            Print_beta_images (tolist (NDArray [1, 2] [Fin 2, Fin 3])) [''const'', ''age'']]"
    by (auto simp: recording_env_def)
  then have trace: "map_sum id snd (remote_2 recording_env payload_phase_2 []) =
       Inr [Print_pvals
              [List [t_statistics_row [Fin 2, Fin 3] [38] [152] [Fin 1, Fin 0, Fin 0, Fin (1 / 4)] 2 0,
                     num 38]]
              (map (t_statistics_row [Fin 2, Fin 3] [38] [152] [Fin 1, Fin 0, Fin 0, Fin (1 / 4)] 2)
                 [0..<1])
              [''const'', ''age''],
            Print_beta_images (tolist (NDArray [1, 2] [Fin 2, Fin 3])) [''const'', ''age'']]"
    by (simp only: remote_2_payload_phase_2 map_sum.simps snd_conv id_apply)
  from blobs stats
  have local: "map_sum id (local_stats \<circ> output_2 \<circ> fst)
        (remote_2 recording_env payload_phase_2 []) =
       Inr (zip [''site_a'', ''site_b''] [''stats of a'', ''stats of b''])"
    by (simp add: remote_2_payload_phase_2)
  from phase_1 handoff beta(1) dof(1) global_sums_payload_phase_2 inverse(1) row trace local
  show ?thesis by (simp add: upt_rec)
qed

section \<open>The per-site statistics when both payloads list the sites in one order\<close>

lemma remote_1_blobs:
  assumes "remote_1 a = Inr res"
  obtains blobs where
    "list_all2 (\<lambda>(site, r) blob. local_stats_dict r = Some blob) (input a) blobs"
    and "cache_local_stats_dict (cache_dict res) = Some blobs"
proof -
  from assms obtain blobs where
    c: "comprehension (\<lambda>(site, r). getitem ''local_stats_dict'' (local_stats_dict r)) (input a) =
          Inr blobs"
    and cache: "cache_local_stats_dict (cache_dict res) = Some blobs"
    by (auto simp: remote_1_def Let_def bind_eq_Inr simp del: comprehension.simps np_array.simps)
  from c have "list_all2 (\<lambda>(site, r) blob. local_stats_dict r = Some blob) (input a) blobs"
    unfolding comprehension_Inr
    by (rule list_all2_mono) (auto simp: getitem_def split: option.splits)
  with cache that show thesis by blast
qed

lemma zip_keys_blobs:
  assumes "list_all2 (\<lambda>(site, r) blob. local_stats_dict r = Some blob) inp blobs"
  shows "map (\<lambda>(site, blob). (site, Some blob)) (zip (map fst inp) blobs) =
         map (\<lambda>(site, r). (site, local_stats_dict r)) inp"
  using assms by (induction rule: list_all2_induct) auto

text \<open>
  When the Phase-2 payload lists the sites of Phase 1 in the order of Phase 1 and carries
  the cache Phase 1 emitted, the final output files under every site the blob that this
  site supplied in Phase 1.
\<close>

theorem local_stats_same_order:
  assumes phase_1: "remote_1 a1 = Inr res1"
    and handoff: "cache a2 = cache_dict res1"
    and order: "map fst (input a2) = map fst (input a1)"
    and run: "remote_2 env a2 w = Inr (out, w')"
  shows "map (\<lambda>(site, blob). (site, Some blob)) (local_stats (output_2 out)) =
         map (\<lambda>(site, r). (site, local_stats_dict r)) (input a1)"
proof -
  from phase_1 obtain blobs where
    all: "list_all2 (\<lambda>(site, r) blob. local_stats_dict r = Some blob) (input a1) blobs"
    and cached: "cache_local_stats_dict (cache_dict res1) = Some blobs"
    by (rule remote_1_blobs)
  from run handoff cached order have "local_stats (output_2 out) = zip (map fst (input a1)) blobs"
    by (auto simp: remote_2_def Let_def bind_eq_Inr getitem_def split: option.splits)
  with zip_keys_blobs [OF all] show ?thesis by simp
qed

text \<open>The run of \<open>payload_2d\<close> followed by \<open>payload_phase_2\<close>.\<close>

theorem local_stats_same_order_witness:
  "map fst (input payload_phase_2) = map fst (input payload_2d)
   \<and> map_sum id (\<lambda>(out, w). map (\<lambda>(site, blob). (site, Some blob)) (local_stats (output_2 out)))
        (remote_2 recording_env payload_phase_2 []) =
     Inr (map (\<lambda>(site, r). (site, local_stats_dict r)) (input payload_2d))"
proof -
  have phase_1: "remote_1 payload_2d = Inr result_2d"
    by (simp add: remote_1_payload_2d result_2d_def)
  have handoff: "cache payload_phase_2 = cache_dict result_2d"
    by (simp add: payload_phase_2_def result_2d_def)
  have order: "map fst (input payload_phase_2) = map fst (input payload_2d)"
    by (simp add: payload_phase_2_def payload_2d_def)
  from local_stats_same_order [OF phase_1 handoff order remote_2_payload_phase_2] order
  show ?thesis by (simp add: remote_2_payload_phase_2)
qed

section \<open>The mean response when means and counts have one shape\<close>

lemma map2_concat_uniform:
  assumes "length xss = length yss"
    and "\<forall>(xs, ys) \<in> set (zip xss yss). length xs = length ys"
  shows "map2 f (concat xss) (concat yss) = concat (map2 (map2 f) xss yss)"
  using assms by (induction xss yss rule: list_induct2) (auto simp: zip_append)

lemma map_Fin_map2: "map2 fmul (map Fin xs) (map Fin ys) = map Fin (map2 (*) xs ys)"
  by (induction xs arbitrary: ys) (auto simp: zip_Cons1 split: list.splits)

lemma weighted_rows:
  assumes "length Ms = length Cs"
    and "\<forall>xs \<in> set Ms. length xs = p" and "\<forall>xs \<in> set Cs. length xs = p"
  shows "map2 fmul (concat (map (map Fin) Ms)) (concat (map (map Fin) Cs)) =
         concat (map (map Fin) (map2 (map2 (*)) Ms Cs))"
proof -
  have "\<forall>(xs, ys) \<in> set (zip (map (map Fin) Ms) (map (map Fin) Cs)). length xs = length ys"
  proof -
    have "length xs = length ys" if "(xs, ys) \<in> set (zip (map (map Fin) Ms) (map (map Fin) Cs))"
      for xs ys
    proof -
      from that have "xs \<in> set (map (map Fin) Ms)" and "ys \<in> set (map (map Fin) Cs)"
        by (auto dest: set_zip_leftD set_zip_rightD)
      with assms(2,3) show ?thesis by auto
    qed
    then show ?thesis by auto
  qed
  from map2_concat_uniform [OF _ this, of fmul] assms(1)
  have "map2 fmul (concat (map (map Fin) Ms)) (concat (map (map Fin) Cs)) =
        concat (map2 (map2 fmul) (map (map Fin) Ms) (map (map Fin) Cs))"
    by simp
  also have "map2 (map2 fmul) (map (map Fin) Ms) (map (map Fin) Cs) =
             map (map Fin) (map2 (map2 (*)) Ms Cs)"
    by (simp add: zip_map_map map_Fin_map2 case_prod_unfold)
  finally show ?thesis .
qed

lemma sum_weighted_rows:
  assumes "length Ms = length Cs"
    and "\<forall>xs \<in> set Ms. k < length xs" and "\<forall>xs \<in> set Cs. k < length xs"
  shows "(\<Sum>xs\<leftarrow>map2 (map2 (*)) Ms Cs. xs ! k) = (\<Sum>(m, c)\<leftarrow>zip Ms Cs. m ! k * c ! k)"
  using assms by (induction Ms Cs rule: list_induct2) auto

lemma stacked_means:
  assumes list: "comprehension (\<lambda>(site, r). getitem ''mean_y_local'' (mean_y_local r)) inp =
                   Inr means_list"
    and means: "map (\<lambda>(site, r). local_array mean_y_local r) inp =
                map (\<lambda>xs. Some (finite_array s xs)) Ms"
    and arr: "np_array (List means_list) = Inr stacked"
    and ne: "inp \<noteq> []"
  shows "stacked = NDArray (length Ms # s) (concat (map (map Fin) Ms))"
    and "\<forall>xs \<in> set Ms. length xs = prod_list s" and "length Ms = length inp"
proof -
  from arr obtain as where as: "comprehension np_array means_list = Inr as"
    and stack: "nd_stack as = Inr stacked"
    by (auto simp: np_arrays_comprehension split: sum.splits)
  from list have "list_all2 (\<lambda>(site, r) v. mean_y_local r = Some v) inp means_list"
    unfolding comprehension_Inr
    by (rule list_all2_mono) (auto simp: getitem_def split: option.splits)
  moreover from as have "list_all2 (\<lambda>v b. np_array v = Inr b) means_list as"
    by (simp only: comprehension_Inr)
  ultimately have "list_all2 (\<lambda>x b. (case x of (site, r) \<Rightarrow>
      bind (getitem ''mean_y_local'' (mean_y_local r)) np_array) = Inr b) inp as"
    by (auto simp: list_all2_conv_all_nth getitem_def bind_Inr split: prod.splits)
  then have c: "comprehension
      (\<lambda>(site, r). bind (getitem ''mean_y_local'' (mean_y_local r)) np_array) inp = Inr as"
    by (simp only: comprehension_Inr)
  note facts = finite_arrays_of_local_arrays [OF c means]
  from facts(3) ne have "Ms \<noteq> []" by auto
  from nd_stack_rows [OF this, of s] stack facts(1)
  show "stacked = NDArray (length Ms # s) (concat (map (map Fin) Ms))"
    by (simp add: finite_array_def [abs_def])
  from facts show "\<forall>xs \<in> set Ms. length xs = prod_list s" and "length Ms = length inp"
    by simp_all
qed

text \<open>
  When \<open>remote_1\<close> returns and every site's mean response and count have one common shape
  \<open>s\<close> (both plain numbers, or both lists of one length), with finite entries \<open>Ms\<close> and
  \<open>Cs\<close> and a non-zero total count in every position, the global mean response is the
  count-weighted mean, position by position.
\<close>

theorem mean_y_global_is_count_weighted_mean:
  assumes ok: "remote_1 a = Inr res"
    and means: "map (\<lambda>(site, r). local_array mean_y_local r) (input a) =
                map (\<lambda>xs. Some (finite_array s xs)) Ms"
    and counts: "map (\<lambda>(site, r). local_array count_local r) (input a) =
                 map (\<lambda>xs. Some (finite_array s xs)) Cs"
    and total: "list_all (\<lambda>k. (\<Sum>c\<leftarrow>Cs. c ! k) \<noteq> 0) [0..<prod_list s]"
  shows "out_mean_y_global (output_dict res) =
           tolist (finite_array s
             (map (\<lambda>k. (\<Sum>(m, c)\<leftarrow>zip Ms Cs. m ! k * c ! k) / (\<Sum>c\<leftarrow>Cs. c ! k))
                [0..<prod_list s]))"
proof -
  from ok obtain means_list cs stacked cnt weighted numer denom myg where
    ne: "input a \<noteq> []"
    and ml: "comprehension (\<lambda>(site, r). getitem ''mean_y_local'' (mean_y_local r)) (input a) =
               Inr means_list"
    and cs: "comprehension
       (\<lambda>(site, r). bind (getitem ''count_local'' (count_local r)) np_array)
       (input a) = Inr cs"
    and stacked: "np_array (List means_list) = Inr stacked"
    and cnt: "nd_stack cs = Inr cnt"
    and weighted: "nd_mul stacked cnt = Inr weighted"
    and numer: "np_sum_axis0 weighted = Inr numer"
    and denom: "np_sum_axis0 cnt = Inr denom"
    and myg: "nd_div numer denom = Inr myg"
    and out: "out_mean_y_global (output_dict res) = tolist myg"
    by (rule remote_1_InrE)
  let ?P = "prod_list s"
  note m = stacked_means [OF ml means stacked ne]
  note c = finite_arrays_of_local_arrays [OF cs counts]
  from c(3) ne have "Cs \<noteq> []" by auto
  from nd_stack_rows [OF this, of s] cnt c(1)
  have cnt_eq: "cnt = NDArray (length Cs # s) (concat (map (map Fin) Cs))"
    by (simp add: finite_array_def [abs_def])
  have len: "length Ms = length Cs"
    using m(3) c(3) by simp
  let ?rows = "map2 (map2 (*)) Ms Cs"
  have rows_len: "\<forall>xs \<in> set ?rows. length xs = ?P"
  proof
    fix xs assume "xs \<in> set ?rows"
    then obtain mm cc where "(mm, cc) \<in> set (zip Ms Cs)" and xs: "xs = map2 (*) mm cc"
      by auto
    then have "mm \<in> set Ms" and "cc \<in> set Cs"
      by (auto dest: set_zip_leftD set_zip_rightD)
    with m(2) c(2) xs show "length xs = ?P" by simp
  qed
  have wf: "wf_array (NDArray (length Ms # s) (concat (map (map Fin) Ms)))"
    "wf_array (NDArray (length Cs # s) (concat (map (map Fin) Cs)))"
    using m(2) c(2) length_concat_uniform [of "map (map Fin) Ms" ?P]
      length_concat_uniform [of "map (map Fin) Cs" ?P]
    by (simp_all add: wf_array_def)
  from weighted m(1) cnt_eq len wf
  have "weighted = NDArray (length Cs # s)
          (map2 fmul (concat (map (map Fin) Ms)) (concat (map (map Fin) Cs)))"
    by (simp add: nd_mul_def nd_binop_same_shape)
  with weighted_rows [OF len m(2) c(2)] len
  have "weighted = NDArray (length ?rows # s) (concat (map (map Fin) ?rows))"
    by simp
  with numer sum_axis0_rows [OF rows_len]
  have numer_eq: "numer = NDArray s (map (\<lambda>k. Fin (\<Sum>xs\<leftarrow>?rows. xs ! k)) [0..<?P])"
    by simp
  from denom cnt_eq sum_axis0_rows [OF c(2)]
  have denom_eq: "denom = NDArray s (map (\<lambda>k. Fin (\<Sum>xs\<leftarrow>Cs. xs ! k)) [0..<?P])"
    by simp
  have quot: "map2 fdiv (map (\<lambda>k. Fin (\<Sum>xs\<leftarrow>?rows. xs ! k)) [0..<?P])
                 (map (\<lambda>k. Fin (\<Sum>xs\<leftarrow>Cs. xs ! k)) [0..<?P]) =
              map Fin (map (\<lambda>k. (\<Sum>(m, c)\<leftarrow>zip Ms Cs. m ! k * c ! k) / (\<Sum>c\<leftarrow>Cs. c ! k)) [0..<?P])"
  proof (rule nth_equalityI)
    show "length (map2 fdiv (map (\<lambda>k. Fin (\<Sum>xs\<leftarrow>?rows. xs ! k)) [0..<?P])
                 (map (\<lambda>k. Fin (\<Sum>xs\<leftarrow>Cs. xs ! k)) [0..<?P])) =
          length (map Fin (map (\<lambda>k. (\<Sum>(m, c)\<leftarrow>zip Ms Cs. m ! k * c ! k) / (\<Sum>c\<leftarrow>Cs. c ! k)) [0..<?P]))"
      by simp
  next
    fix k
    assume "k < length (map2 fdiv (map (\<lambda>k. Fin (\<Sum>xs\<leftarrow>?rows. xs ! k)) [0..<?P])
                 (map (\<lambda>k. Fin (\<Sum>xs\<leftarrow>Cs. xs ! k)) [0..<?P]))"
    then have k: "k < ?P" by simp
    with total have nz: "(\<Sum>c\<leftarrow>Cs. c ! k) \<noteq> 0"
      by (simp add: list_all_iff)
    from k m(2) c(2) have "\<forall>xs \<in> set Ms. k < length xs" and "\<forall>xs \<in> set Cs. k < length xs"
      by auto
    from sum_weighted_rows [OF len this]
    have "(\<Sum>xs\<leftarrow>?rows. xs ! k) = (\<Sum>(m, c)\<leftarrow>zip Ms Cs. m ! k * c ! k)" .
    with k nz
    show "map2 fdiv (map (\<lambda>k. Fin (\<Sum>xs\<leftarrow>?rows. xs ! k)) [0..<?P])
                 (map (\<lambda>k. Fin (\<Sum>xs\<leftarrow>Cs. xs ! k)) [0..<?P]) ! k =
          map Fin (map (\<lambda>k. (\<Sum>(m, c)\<leftarrow>zip Ms Cs. m ! k * c ! k) / (\<Sum>c\<leftarrow>Cs. c ! k)) [0..<?P]) ! k"
      by simp
  qed
  from myg numer_eq denom_eq
  have "myg = NDArray s (map2 fdiv (map (\<lambda>k. Fin (\<Sum>xs\<leftarrow>?rows. xs ! k)) [0..<?P])
                 (map (\<lambda>k. Fin (\<Sum>xs\<leftarrow>Cs. xs ! k)) [0..<?P]))"
    by (simp add: nd_div_def nd_binop_same_shape wf_array_def)
  with quot out show ?thesis
    by (simp only: finite_array_def)
qed

lemma remote_1_payload_scalars:
  "map_sum id (out_mean_y_global \<circ> output_dict) (remote_1 payload_scalars) = Inr (num (7 / 2))"
  by (simp add: payload_scalars_def eval_defs)

text \<open>The means 2 and 4 with the counts 10 and 30 give 3.5.\<close>

theorem mean_y_global_is_count_weighted_mean_witness:
  "map (\<lambda>(site, r). local_array mean_y_local r) (input payload_scalars) =
     [Some (finite_array [] [2]), Some (finite_array [] [4])]
   \<and> map (\<lambda>(site, r). local_array count_local r) (input payload_scalars) =
     [Some (finite_array [] [10]), Some (finite_array [] [30])]
   \<and> map_sum id (out_mean_y_global \<circ> output_dict) (remote_1 payload_scalars) =
       Inr (num ((2 * 10 + 4 * 30) / (10 + 30)))
   \<and> num ((2 * 10 + 4 * 30) / (10 + 30)) = num 3.5"
proof -
  have means: "map (\<lambda>(site, r). local_array mean_y_local r) (input payload_scalars) =
      map (\<lambda>xs. Some (finite_array [] xs)) [[2], [4]]"
    by (simp add: payload_scalars_def local_array_def finite_array_def eval_defs)
  have counts: "map (\<lambda>(site, r). local_array count_local r) (input payload_scalars) =
      map (\<lambda>xs. Some (finite_array [] xs)) [[10], [30]]"
    by (simp add: payload_scalars_def local_array_def finite_array_def eval_defs)
  have total: "list_all (\<lambda>k. (\<Sum>c\<leftarrow>[[10], [30 :: real]]. c ! k) \<noteq> 0) [0..<prod_list []]"
    by simp
  obtain res where ok: "remote_1 payload_scalars = Inr res"
    using remote_1_payload_scalars by (cases "remote_1 payload_scalars") auto
  from mean_y_global_is_count_weighted_mean [OF ok means counts total]
  have "out_mean_y_global (output_dict res) = num ((2 * 10 + 4 * 30) / (10 + 30))"
    by (simp add: finite_array_def tolist_def num_def)
  with ok means counts show ?thesis by simp
qed

section \<open>A singular cross-product matrix\<close>

lemma nd_binop_scalar_left_returns: "\<exists>r. nd_binop f (scalar c) b = Inr r"
  by (simp add: nd_binop_def broadcast_shapes_scalar scalar_def)

lemma comprehension_first_raises:
  assumes "0 < n" and "f 0 = Inl e"
  shows "comprehension f [0..<n] = Inl e"
proof -
  from assms(1) have "[0..<n] = 0 # [1..<n]" by (simp add: upt_rec)
  with assms(2) show ?thesis by simp
qed

lemma fit_statistics_raises:
  assumes sums: "global_sums input_list = Inr (sse, sst, g)"
    and ratio: "py_div sse sst = Inr ratio"
    and dof_array: "np_array dof = Inr dof_array"
    and mse: "nd_div (as_array sse) dof_array = Inr MSE"
    and n: "py_len MSE = Inr n" "0 < n"
    and raises: "linalg_inv env (as_array g) = Inl err"
  shows "fit_statistics env input_list beta dof = Inl err"
proof -
  obtain r2 where r2: "nd_sub (scalar (Fin 1)) ratio = Inr r2"
    using nd_binop_scalar_left_returns [of fsub "Fin 1" ratio] by (auto simp: nd_sub_def)
  from n obtain ns where "shape MSE = n # ns"
    by (auto simp: py_len_def split: list.splits)
  with n(2) obtain MSE_0 where "nd_index MSE 0 = Inr MSE_0"
    by (simp add: nd_index_def)
  with raises have "dimension_statistics env MSE (as_array g) beta dof 0 = Inl err"
    by (simp add: dimension_statistics_def bind_Inr bind_Inl)
  from comprehension_first_raises
    [where f = "dimension_statistics env MSE (as_array g) beta dof", OF n(2) this]
  show ?thesis
    by (simp add: fit_statistics_def sums ratio r2 dof_array mse n(1) bind_Inr bind_Inl
          del: comprehension.simps)
qed

text \<open>
  C8 (as amended). \<open>remote_2\<close> has no test of its own for a singular matrix: it fails
  when the inversion does. For a Phase-2 input whose cache holds the four fields read,
  whose sums and mean squared error are computed and have at least one output dimension,
  and on whose summed cross-product matrix the inversion raises \<open>err\<close> (as
  \<^verbatim>\<open>scipy.linalg.inv\<close> does when the factorisation meets a zero pivot), \<open>remote_2\<close> raises
  that very error, whatever the rendering routines \<open>pv\<close>, \<open>bi\<close> and \<open>ep\<close> would do or
  raise: none of them is reached, and nothing is returned.
\<close>

theorem singular_matrix_is_fatal:
  assumes cached: "cache_X_labels (cache a) = Some labels"
      "cache_local_stats_dict (cache a) = Some blobs"
      "cache_avg_beta_vector (cache a) = Some beta"
      "cache_dof_global (cache a) = Some dof"
    and sums: "global_sums (input a) = Inr (sse, sst, g)"
    and ratio: "py_div sse sst = Inr ratio"
    and dof_array: "np_array dof = Inr dof_array"
    and mse: "nd_div (as_array sse) dof_array = Inr MSE"
    and n: "py_len MSE = Inr n" "0 < n"
    and raises: "linalg_inv env (as_array g) = Inl err"
  shows "remote_2 (env\<lparr>print_pvals := pv, print_beta_images := bi, encode_png := ep\<rparr>) a w =
           Inl err"
proof -
  have "linalg_inv (env\<lparr>print_pvals := pv, print_beta_images := bi, encode_png := ep\<rparr>)
          (as_array g) = Inl err"
    using raises by simp
  from fit_statistics_raises [OF sums ratio dof_array mse n this]
  show ?thesis
    by (simp add: remote_2_def Let_def cached getitem_def bind_Inr bind_Inl)
qed

text \<open>
  A second covariate that is zero at both sites, with one output dimension: the
  inversion raises \<^verbatim>\<open>LinAlgError\<close>, and this is what \<open>remote_2\<close> raises although every
  rendering routine would raise an error of its own.
\<close>

theorem singular_matrix_is_fatal_witness:
  "global_sums (input payload_singular) =
     Inr (Some (NDArray [1] [Fin 152]), Some (NDArray [1] [Fin 200]),
          Some (NDArray [2, 2] [Fin 3, Fin 0, Fin 0, Fin 0]))
   \<and> linalg_inv recording_env (NDArray [2, 2] [Fin 3, Fin 0, Fin 0, Fin 0]) = Inl LinAlgError
   \<and> remote_2 (recording_env\<lparr>print_pvals := failing_print_pvals,
                               print_beta_images := failing_print_beta_images,
                               encode_png := failing_encode_png\<rparr>) payload_singular [] =
       Inl LinAlgError"
proof -
  have cached: "cache_X_labels (cache payload_singular) = Some [''const'', ''age'']"
    "cache_local_stats_dict (cache payload_singular) = Some [''stats of a'', ''stats of b'']"
    "cache_avg_beta_vector (cache payload_singular) = Some (List [List [num 2, num 3]])"
    "cache_dof_global (cache payload_singular) = Some (List [num 38])"
    by (simp_all add: payload_singular_def cache_2d_def)
  have sums: "global_sums (input payload_singular) =
     Inr (Some (NDArray [1] [Fin 152]), Some (NDArray [1] [Fin 200]),
          Some (NDArray [2, 2] [Fin 3, Fin 0, Fin 0, Fin 0]))"
    by (simp add: payload_singular_def eval_defs)
  have ratio: "py_div (Some (NDArray [1] [Fin 152])) (Some (NDArray [1] [Fin 200])) =
      Inr (NDArray [1] [Fin (152 / 200)])"
    by (simp add: eval_defs)
  have singular: "linalg_inv recording_env
      (as_array (Some (NDArray [2, 2] [Fin 3, Fin 0, Fin 0, Fin 0]))) = Inl LinAlgError"
    by (simp add: eval_defs)
  have dof_array: "np_array (List [num 38]) = Inr (NDArray [1] [Fin 38])"
    by (simp add: eval_defs)
  have mse: "nd_div (as_array (Some (NDArray [1] [Fin 152]))) (NDArray [1] [Fin 38]) =
      Inr (NDArray [1] [Fin 4])"
    by (simp add: eval_defs)
  have n: "py_len (NDArray [1] [Fin 4]) = Inr 1" "0 < (1::nat)"
    by (simp_all add: eval_defs)
  from singular_matrix_is_fatal [OF cached sums ratio dof_array mse n singular]
  have "remote_2 (recording_env\<lparr>print_pvals := failing_print_pvals,
                               print_beta_images := failing_print_beta_images,
                               encode_png := failing_encode_png\<rparr>) payload_singular [] =
       Inl LinAlgError" .
  with sums singular show ?thesis by (simp add: as_array_def)
qed

text \<open>
  Two runs in which \<open>remote_2\<close> returns on a singular matrix. With no output dimension
  the loop body never runs: nothing is inverted, although the inversion would raise.
  With one output dimension and the collinear matrix of \<open>payload_collinear\<close>, the
  inversion does not notice the singularity and \<open>remote_2\<close> reports success.
\<close>

theorem singular_matrix_accepted:
  "global_sums (input payload_no_dimension) =
     Inr (Some (NDArray [0] []), Some (NDArray [0] []),
          Some (NDArray [2, 2] [Fin 3, Fin 0, Fin 0, Fin 0]))
   \<and> linalg_inv recording_env (NDArray [2, 2] [Fin 3, Fin 0, Fin 0, Fin 0]) = Inl LinAlgError
   \<and> remote_2 recording_env payload_no_dimension [] =
     Inr (\<lparr> output_2 = \<lparr> global_stats = 2,
                          local_stats = [(''site_a'', ''stats of a''), (''site_b'', ''stats of b'')] \<rparr>,
             success = True \<rparr>,
          [Print_pvals [] [] [''const'', ''age''],
           Print_beta_images (List [List [num 2, num 3]]) [''const'', ''age'']])
   \<and> global_sums (input payload_collinear) =
     Inr (Some (finite_array [1] [38]), Some (finite_array [1] [100]),
          Some (finite_array [3, 3] [1, 2, 3, 4, 5, 6, 7, 8, 9]))
   \<and> [1 - 2 * 4 + 7, 2 - 2 * 5 + 8, 3 - 2 * 6 + 9] = [0, 0, 0 :: real]
   \<and> map_sum id fst (remote_2 rounding_env payload_collinear []) =
     Inr \<lparr> output_2 = \<lparr> global_stats = 2,
                         local_stats = [(''site_a'', ''stats of a''), (''site_b'', ''stats of b'')] \<rparr>,
           success = True \<rparr>"
proof (intro conjI)
  show "global_sums (input payload_no_dimension) =
     Inr (Some (NDArray [0] []), Some (NDArray [0] []),
          Some (NDArray [2, 2] [Fin 3, Fin 0, Fin 0, Fin 0]))"
    by (simp add: payload_no_dimension_def eval_defs)
  show "linalg_inv recording_env (NDArray [2, 2] [Fin 3, Fin 0, Fin 0, Fin 0]) = Inl LinAlgError"
    by (simp add: eval_defs)
  show "remote_2 recording_env payload_no_dimension [] =
     Inr (\<lparr> output_2 = \<lparr> global_stats = 2,
                          local_stats = [(''site_a'', ''stats of a''), (''site_b'', ''stats of b'')] \<rparr>,
             success = True \<rparr>,
          [Print_pvals [] [] [''const'', ''age''],
           Print_beta_images (List [List [num 2, num 3]]) [''const'', ''age'']])"
    by (simp add: payload_no_dimension_def eval_defs)
  show sums: "global_sums (input payload_collinear) =
     Inr (Some (finite_array [1] [38]), Some (finite_array [1] [100]),
          Some (finite_array [3, 3] [1, 2, 3, 4, 5, 6, 7, 8, 9]))"
    by (simp add: payload_collinear_def finite_array_def eval_defs)
  show "[1 - 2 * 4 + 7, 2 - 2 * 5 + 8, 3 - 2 * 6 + 9] = [0, 0, 0 :: real]"
    by simp
  show "map_sum id fst (remote_2 rounding_env payload_collinear []) =
     Inr \<lparr> output_2 = \<lparr> global_stats = 2,
                         local_stats = [(''site_a'', ''stats of a''), (''site_b'', ''stats of b'')] \<rparr>,
           success = True \<rparr>"
    by (simp add: payload_collinear_def rounding_env_def rounding_inv_def finite_array_def eval_defs)
qed

end
